theory Spec2Isabelle
  imports Main
begin

section \<open>Python values\<close>

text \<open>
  The module \<^verbatim>\<open>mcp_tools.py\<close> works on the values that \<^verbatim>\<open>json.loads\<close> and
  \<^verbatim>\<open>response.json()\<close> produce: \<^verbatim>\<open>None\<close>, booleans, integers, strings, lists and
  dictionaries with string keys. A character of a string is a code point below 256 (one
  \<open>char\<close>); floating-point numbers are outside the model. A dictionary is an association
  list in insertion order, read with \<open>map_of\<close>.
\<close>

datatype json =
    JNull
  | JBool bool
  | JInt int
  | JStr string
  | JList "json list"
  | JDict "(string \<times> json) list"

type_synonym pydict = "(string \<times> json) list"

datatype exn =
    KeyError string
  | AttributeError string string
  | TypeError string
  | JSONDecodeError string
  | ValueError string
  | RecursionError string
  | HTTPStatusError string
  | TransportError string

subsection \<open>\<^verbatim>\<open>str\<close>, \<^verbatim>\<open>repr\<close> and formatting\<close>

definition digit_char :: "nat \<Rightarrow> char" where
  "digit_char d = ''0123456789'' ! d"

function string_of_nat :: "nat \<Rightarrow> string" where
  "string_of_nat n =
     (if n < 10 then [digit_char n] else string_of_nat (n div 10) @ [digit_char (n mod 10)])"
  by pat_completeness auto
termination
  by (relation "measure id") auto

definition string_of_int :: "int \<Rightarrow> string" where
  "string_of_int i = (if i < 0 then CHR ''-'' # string_of_nat (nat (- i)) else string_of_nat (nat i))"

definition hex_char :: "nat \<Rightarrow> char" where
  "hex_char d = ''0123456789abcdef'' ! d"

text \<open>
  How \<^verbatim>\<open>repr\<close> writes one character of a string between the quotes \<open>q\<close>. The characters
  that are not printable (the control characters 0 to 31 and 127 to 159, the no-break space
  160 and the soft hyphen 173) are written as escapes.
\<close>

definition repr_char :: "char \<Rightarrow> char \<Rightarrow> string" where
  "repr_char q c =
     (if c = q \<or> c = CHR 0x5C then [CHR 0x5C, c]
      else if c = CHR 0x09 then [CHR 0x5C, CHR ''t'']
      else if c = CHR 0x0A then [CHR 0x5C, CHR ''n'']
      else if c = CHR 0x0D then [CHR 0x5C, CHR ''r'']
      else if of_char c < (32::nat) \<or> ((127::nat) \<le> of_char c \<and> of_char c \<le> (160::nat))
              \<or> of_char c = (173::nat)
        then [CHR 0x5C, CHR ''x'', hex_char (of_char c div 16), hex_char (of_char c mod 16)]
      else [c])"

definition str_repr :: "string \<Rightarrow> string" where
  "str_repr s =
     (let q = (if CHR 0x27 \<in> set s \<and> CHR 0x22 \<notin> set s then CHR 0x22 else CHR 0x27)
      in [q] @ concat (map (repr_char q) s) @ [q])"

fun join_strings :: "string \<Rightarrow> string list \<Rightarrow> string" where
  "join_strings sep [] = []"
| "join_strings sep [x] = x"
| "join_strings sep (x # y # ys) = x @ sep @ join_strings sep (y # ys)"

fun py_repr :: "json \<Rightarrow> string" where
  "py_repr JNull = ''None''"
| "py_repr (JBool b) = (if b then ''True'' else ''False'')"
| "py_repr (JInt i) = string_of_int i"
| "py_repr (JStr s) = str_repr s"
| "py_repr (JList xs) = ''['' @ join_strings '', '' (map py_repr xs) @ '']''"
| "py_repr (JDict kvs) =
     ''{'' @ join_strings '', '' (map (\<lambda>kv. str_repr (fst kv) @ '': '' @ py_repr (snd kv)) kvs) @ ''}''"

definition py_str :: "json \<Rightarrow> string" where
  "py_str v = (case v of JStr s \<Rightarrow> s | _ \<Rightarrow> py_repr v)"

text \<open>A replacement field \<^verbatim>\<open>{x}\<close> of an f-string formats \<open>x\<close> with \<^verbatim>\<open>str\<close>.\<close>

definition py_format :: "json \<Rightarrow> string" where
  "py_format v = py_str v"

definition type_name :: "json \<Rightarrow> string" where
  "type_name v =
     (case v of JNull \<Rightarrow> ''NoneType'' | JBool _ \<Rightarrow> ''bool'' | JInt _ \<Rightarrow> ''int''
      | JStr _ \<Rightarrow> ''str'' | JList _ \<Rightarrow> ''list'' | JDict _ \<Rightarrow> ''dict'')"

definition exn_str :: "exn \<Rightarrow> string" where
  "exn_str e =
     (case e of
        KeyError k \<Rightarrow> str_repr k
      | AttributeError t a \<Rightarrow> [CHR 0x27] @ t @ [CHR 0x27] @ '' object has no attribute '' @ [CHR 0x27] @ a @ [CHR 0x27]
      | TypeError m \<Rightarrow> m
      | JSONDecodeError m \<Rightarrow> m
      | ValueError m \<Rightarrow> m
      | RecursionError m \<Rightarrow> m
      | HTTPStatusError m \<Rightarrow> m
      | TransportError m \<Rightarrow> m)"

subsection \<open>Truth value, equality, membership, length, iteration\<close>

definition py_truthy :: "json \<Rightarrow> bool" where
  "py_truthy v =
     (case v of JNull \<Rightarrow> False | JBool b \<Rightarrow> b | JInt i \<Rightarrow> i \<noteq> 0
      | JStr s \<Rightarrow> s \<noteq> [] | JList xs \<Rightarrow> xs \<noteq> [] | JDict kvs \<Rightarrow> kvs \<noteq> [])"

text \<open>
  \<^verbatim>\<open>==\<close>: a boolean equals the integer 0 or 1, lists are compared element by element,
  dictionaries key by key whatever the order.
\<close>

fun py_eq :: "json \<Rightarrow> json \<Rightarrow> bool" where
  "py_eq JNull y = (y = JNull)"
| "py_eq (JBool a) y =
     (case y of JBool b \<Rightarrow> a = b | JInt j \<Rightarrow> (if a then 1 else 0) = j | _ \<Rightarrow> False)"
| "py_eq (JInt i) y =
     (case y of JBool b \<Rightarrow> i = (if b then 1 else 0) | JInt j \<Rightarrow> i = j | _ \<Rightarrow> False)"
| "py_eq (JStr s) y = (y = JStr s)"
| "py_eq (JList xs) y =
     (case y of JList ys \<Rightarrow> list_all2 py_eq xs ys | _ \<Rightarrow> False)"
| "py_eq (JDict kvs) y =
     (case y of
        JDict kvs' \<Rightarrow>
          set (map fst kvs) = set (map fst kvs') \<and>
          list_all (\<lambda>kv. case map_of kvs' (fst kv) of None \<Rightarrow> False | Some v' \<Rightarrow> py_eq (snd kv) v') kvs
      | _ \<Rightarrow> False)"

fun starts_with :: "string \<Rightarrow> string \<Rightarrow> bool" where
  "starts_with s [] = True"
| "starts_with [] (c # p) = False"
| "starts_with (x # s) (c # p) = (x = c \<and> starts_with s p)"

fun is_substring :: "string \<Rightarrow> string \<Rightarrow> bool" where
  "is_substring t [] = (t = [])"
| "is_substring t (x # s) = (starts_with (x # s) t \<or> is_substring t s)"

text \<open>\<^verbatim>\<open>x in c\<close>.\<close>

definition py_contains :: "json \<Rightarrow> json \<Rightarrow> exn + bool" where
  "py_contains x c =
     (case c of
        JList ys \<Rightarrow> Inr (list_ex (py_eq x) ys)
      | JDict kvs \<Rightarrow>
          (case x of
             JList _ \<Rightarrow> Inl (TypeError (''unhashable type: '' @ [CHR 0x27] @ ''list'' @ [CHR 0x27]))
           | JDict _ \<Rightarrow> Inl (TypeError (''unhashable type: '' @ [CHR 0x27] @ ''dict'' @ [CHR 0x27]))
           | _ \<Rightarrow> Inr (list_ex (\<lambda>k. py_eq x (JStr k)) (map fst kvs)))
      | JStr s \<Rightarrow>
          (case x of
             JStr t \<Rightarrow> Inr (is_substring t s)
           | _ \<Rightarrow> Inl (TypeError ([CHR 0x27] @ ''in <string>'' @ [CHR 0x27]
                    @ '' requires string as left operand, not '' @ type_name x)))
      | _ \<Rightarrow> Inl (TypeError (''argument of type '' @ [CHR 0x27] @ type_name c @ [CHR 0x27]
                    @ '' is not iterable'')))"

text \<open>\<^verbatim>\<open>len(v)\<close>.\<close>

definition py_len :: "json \<Rightarrow> exn + nat" where
  "py_len v =
     (case v of
        JStr s \<Rightarrow> Inr (length s)
      | JList xs \<Rightarrow> Inr (length xs)
      | JDict kvs \<Rightarrow> Inr (length kvs)
      | _ \<Rightarrow> Inl (TypeError (''object of type '' @ [CHR 0x27] @ type_name v @ [CHR 0x27]
                    @ '' has no len()'')))"

text \<open>The elements a \<^verbatim>\<open>for\<close> loop over \<open>v\<close> visits.\<close>

definition py_iter :: "json \<Rightarrow> exn + json list" where
  "py_iter v =
     (case v of
        JStr s \<Rightarrow> Inr (map (\<lambda>c. JStr [c]) s)
      | JList xs \<Rightarrow> Inr xs
      | JDict kvs \<Rightarrow> Inr (map (\<lambda>kv. JStr (fst kv)) kvs)
      | _ \<Rightarrow> Inl (TypeError ([CHR 0x27] @ type_name v @ [CHR 0x27] @ '' object is not iterable'')))"

subsection \<open>Dictionary access\<close>

text \<open>\<^verbatim>\<open>d[k]\<close> and \<^verbatim>\<open>d.get(k, default)\<close> on a dictionary.\<close>

definition dict_getitem :: "pydict \<Rightarrow> string \<Rightarrow> exn + json" where
  "dict_getitem d k = (case map_of d k of None \<Rightarrow> Inl (KeyError k) | Some v \<Rightarrow> Inr v)"

definition dict_get :: "pydict \<Rightarrow> string \<Rightarrow> json \<Rightarrow> json" where
  "dict_get d k dflt = (case map_of d k of None \<Rightarrow> dflt | Some v \<Rightarrow> v)"

text \<open>The same two operations on a value of any type.\<close>

definition py_getitem :: "json \<Rightarrow> string \<Rightarrow> exn + json" where
  "py_getitem v k =
     (case v of
        JDict d \<Rightarrow> dict_getitem d k
      | JList _ \<Rightarrow> Inl (TypeError ''list indices must be integers or slices, not str'')
      | JStr _ \<Rightarrow> Inl (TypeError (''string indices must be integers, not '' @ [CHR 0x27] @ ''str'' @ [CHR 0x27]))
      | _ \<Rightarrow> Inl (TypeError ([CHR 0x27] @ type_name v @ [CHR 0x27] @ '' object is not subscriptable'')))"

definition py_get :: "json \<Rightarrow> string \<Rightarrow> json \<Rightarrow> exn + json" where
  "py_get v k dflt =
     (case v of JDict d \<Rightarrow> Inr (dict_get d k dflt) | _ \<Rightarrow> Inl (AttributeError (type_name v) ''get''))"

text \<open>\<^verbatim>\<open>sep.join(items)\<close>: every item must be a string.\<close>

fun strings_from :: "nat \<Rightarrow> json list \<Rightarrow> exn + string list" where
  "strings_from i [] = Inr []"
| "strings_from i (v # vs) =
     (case v of
        JStr s \<Rightarrow> (case strings_from (Suc i) vs of Inl e \<Rightarrow> Inl e | Inr ss \<Rightarrow> Inr (s # ss))
      | _ \<Rightarrow> Inl (TypeError (''sequence item '' @ string_of_nat i @ '': expected str instance, ''
                    @ type_name v @ '' found'')))"

definition py_join :: "string \<Rightarrow> json list \<Rightarrow> exn + string" where
  "py_join sep items =
     (case strings_from 0 items of Inl e \<Rightarrow> Inl e | Inr ss \<Rightarrow> Inr (join_strings sep ss))"

section \<open>Effects: the log, exceptions, the environment and the network\<close>

text \<open>
  A call returns the records it sent to the module's logger, in order, and either the
  exception it raised (\<open>Inl\<close>) or its value (\<open>Inr\<close>).
\<close>

datatype level = DEBUG | INFO | WARNING | ERROR

type_synonym log_record = "level \<times> string"

type_synonym 'a outcome = "log_record list \<times> (exn + 'a)"

definition ret :: "'a \<Rightarrow> 'a outcome" where
  "ret x = ([], Inr x)"

definition raise :: "exn \<Rightarrow> 'a outcome" where
  "raise e = ([], Inl e)"

definition lift :: "exn + 'a \<Rightarrow> 'a outcome" where
  "lift r = ([], r)"

definition logger :: "level \<Rightarrow> string \<Rightarrow> unit outcome" where
  "logger lvl msg = ([(lvl, msg)], Inr ())"

text \<open>Sequencing: the second step runs only when the first raised nothing.\<close>

definition and_then :: "'a outcome \<Rightarrow> ('a \<Rightarrow> 'b outcome) \<Rightarrow> 'b outcome" where
  "and_then m f =
     (case snd m of
        Inl e \<Rightarrow> (fst m, Inl e)
      | Inr x \<Rightarrow> (fst m @ fst (f x), snd (f x)))"

text \<open>\<^verbatim>\<open>try: m  except Exception as e: h e\<close>, and the same for one class of exception.\<close>

definition try_except :: "'a outcome \<Rightarrow> (exn \<Rightarrow> 'a outcome) \<Rightarrow> 'a outcome" where
  "try_except m h =
     (case snd m of
        Inl e \<Rightarrow> (fst m @ fst (h e), snd (h e))
      | Inr x \<Rightarrow> m)"

definition is_JSONDecodeError :: "exn \<Rightarrow> bool" where
  "is_JSONDecodeError e = (case e of JSONDecodeError _ \<Rightarrow> True | _ \<Rightarrow> False)"

definition try_except_JSONDecodeError :: "'a outcome \<Rightarrow> (exn \<Rightarrow> 'a outcome) \<Rightarrow> 'a outcome" where
  "try_except_JSONDecodeError m h =
     (case snd m of
        Inl e \<Rightarrow> (if is_JSONDecodeError e then (fst m @ fst (h e), snd (h e)) else m)
      | Inr x \<Rightarrow> m)"

text \<open>A \<^verbatim>\<open>for\<close> loop whose body updates the loop's state; an exception ends it.\<close>

fun for_each :: "('a \<Rightarrow> 's \<Rightarrow> 's outcome) \<Rightarrow> 'a list \<Rightarrow> 's \<Rightarrow> 's outcome" where
  "for_each body [] s = ret s"
| "for_each body (x # xs) s = and_then (body x s) (for_each body xs)"

text \<open>
  What the module reads from outside: the process environment (\<^verbatim>\<open>os.getenv\<close>), the
  JSON decoder (\<^verbatim>\<open>json.loads\<close>), and \<^verbatim>\<open>httpx.post\<close> with the URL, the JSON payload, the
  headers and the timeout, which raises or answers with a status code and a body. The
  decoder returns a value or raises: \<^verbatim>\<open>JSONDecodeError\<close> for text that is not JSON, but also
  \<^verbatim>\<open>ValueError\<close> for an integer literal longer than the interpreter's digit limit and
  \<^verbatim>\<open>RecursionError\<close> for arrays or objects nested too deep. \<open>status_error_message\<close> is
  the text of the exception \<^verbatim>\<open>raise_for_status\<close> raises for a response.
\<close>

record http_response =
  status_code :: nat
  body :: string

record world =
  getenv :: "string \<Rightarrow> string option"
  json_loads :: "string \<Rightarrow> exn + json"
  httpx_post :: "json \<Rightarrow> json \<Rightarrow> (string \<times> string) list \<Rightarrow> nat \<Rightarrow> exn + http_response"
  status_error_message :: "http_response \<Rightarrow> string"

definition os_getenv :: "world \<Rightarrow> string \<Rightarrow> string \<Rightarrow> string" where
  "os_getenv w k dflt = (case getenv w k of None \<Rightarrow> dflt | Some v \<Rightarrow> v)"

definition loads :: "world \<Rightarrow> string \<Rightarrow> exn + json" where
  "loads w s = json_loads w s"

definition raise_for_status :: "world \<Rightarrow> http_response \<Rightarrow> exn + unit" where
  "raise_for_status w r =
     (if 200 \<le> status_code r \<and> status_code r \<le> 299 then Inr ()
      else Inl (HTTPStatusError (status_error_message w r)))"

definition response_json :: "world \<Rightarrow> http_response \<Rightarrow> exn + json" where
  "response_json w r = loads w (body r)"

section \<open>Regular expressions: \<^verbatim>\<open>re.sub\<close>\<close>

text \<open>
  A pattern is a sequence of atoms: a literal character, or the group \<^verbatim>\<open>(\w+)\<close>, one
  or more word characters, greedy, whose text is group 1. The pattern is a \<^verbatim>\<open>str\<close> pattern
  compiled without \<^verbatim>\<open>re.ASCII\<close>, so a word character is an alphanumeric character or the
  underscore: below 256 these are the ASCII digits and letters, and the Latin-1 letters,
  superscript digits and fractions (170, 178, 179, 181, 185, 186, 188 to 190, 192 to 214,
  216 to 246 and 248 to 255). \<open>match_here\<close> matches a
  pattern at the start of a text as a backtracking matcher does: the group first takes
  the longest run of word characters and gives back one character at a time while the
  rest of the pattern fails. It returns group 1 and the text after the match.
\<close>

datatype atom = Lit char | WordGroup

definition is_word_char :: "char \<Rightarrow> bool" where
  "is_word_char c =
     (let n = (of_char c :: nat)
      in (48 \<le> n \<and> n \<le> 57) \<or> (65 \<le> n \<and> n \<le> 90) \<or> (97 \<le> n \<and> n \<le> 122) \<or> n = 95
         \<or> n = 170 \<or> n = 178 \<or> n = 179 \<or> n = 181 \<or> n = 185 \<or> n = 186
         \<or> (188 \<le> n \<and> n \<le> 190) \<or> (192 \<le> n \<and> n \<le> 214) \<or> (216 \<le> n \<and> n \<le> 246)
         \<or> (248 \<le> n \<and> n \<le> 255))"

function match_here :: "atom list \<Rightarrow> string \<Rightarrow> (string \<times> string) option"
  and match_group :: "atom list \<Rightarrow> string \<Rightarrow> nat \<Rightarrow> (string \<times> string) option" where
  "match_here [] s = Some ([], s)"
| "match_here (Lit c # p) s =
     (case s of [] \<Rightarrow> None | x # t \<Rightarrow> if x = c then match_here p t else None)"
| "match_here (WordGroup # p) s = match_group p s (length (takeWhile is_word_char s))"
| "match_group p s 0 = None"
| "match_group p s (Suc n) =
     (case match_here p (drop (Suc n) s) of
        Some (g, r) \<Rightarrow> Some (take (Suc n) s, r)
      | None \<Rightarrow> match_group p s n)"
  by pat_completeness auto
termination
  by (relation "inv_image (less_than <*lex*> less_than)
        (\<lambda>x. case x of Inl (p, s) \<Rightarrow> (length p, 0) | Inr (p, s, n) \<Rightarrow> (length p, Suc n))") auto

text \<open>
  \<^verbatim>\<open>re.sub(pattern, repl, text)\<close> with a function \<open>repl\<close> of group 1: the leftmost match
  is replaced and the search goes on after it; where nothing matches, the character is
  kept. (The patterns here start with a literal, so no match is empty.)
\<close>

function re_sub :: "atom list \<Rightarrow> (string \<Rightarrow> string) \<Rightarrow> string \<Rightarrow> string" where
  "re_sub p repl [] = []"
| "re_sub p repl (c # t) =
     (case match_here p (c # t) of
        None \<Rightarrow> c # re_sub p repl t
      | Some (g, r) \<Rightarrow>
          if length r < length (c # t) then repl g @ re_sub p repl r
          else c # re_sub p repl t)"
  by pat_completeness auto
termination
  by (relation "measure (\<lambda>(p, repl, s). length s)") auto

section \<open>The module\<close>

subsection \<open>\<^verbatim>\<open>substitute_env_vars\<close>\<close>

text \<open>The pattern \<^verbatim>\<open>\$\{(\w+)\}\<close>.\<close>

definition env_var_pattern :: "atom list" where
  "env_var_pattern = [Lit CHR ''$'', Lit CHR ''{'', WordGroup, Lit CHR ''}'']"

definition substitute_env_vars :: "world \<Rightarrow> string \<Rightarrow> string" where
  "substitute_env_vars w value =
     (let replace = (\<lambda>var_name. os_getenv w var_name '''')
      in re_sub env_var_pattern replace value)"

subsection \<open>\<^verbatim>\<open>load_mcp_config\<close>\<close>

definition load_mcp_config :: "world \<Rightarrow> json outcome" where
  "load_mcp_config w =
     (let config_str = os_getenv w ''MCP_SERVERS_JSON'' ''[]'';
          config_str = substitute_env_vars w config_str
      in try_except_JSONDecodeError
           (and_then (lift (loads w config_str)) (\<lambda>config.
            and_then (lift (py_len config)) (\<lambda>n.
            and_then (logger INFO (''Loaded '' @ string_of_nat n @ '' MCP server configurations'')) (\<lambda>_.
            ret config))))
           (\<lambda>e.
            and_then (logger ERROR (''Failed to parse MCP_SERVERS_JSON: '' @ exn_str e)) (\<lambda>_.
            ret (JList []))))"

subsection \<open>Request headers\<close>

text \<open>
  \<^verbatim>\<open>{k: substitute_env_vars(v) for k, v in headers.items()}\<close>: \<^verbatim>\<open>items\<close> exists on a
  dictionary only, and \<^verbatim>\<open>re.sub\<close> accepts a string only.
\<close>

fun substitute_items :: "world \<Rightarrow> pydict \<Rightarrow> exn + (string \<times> string) list" where
  "substitute_items w [] = Inr []"
| "substitute_items w ((k, v) # rest) =
     (case v of
        JStr s \<Rightarrow>
          (case substitute_items w rest of
             Inl e \<Rightarrow> Inl e
           | Inr hs \<Rightarrow> Inr ((k, substitute_env_vars w s) # hs))
      | _ \<Rightarrow> Inl (TypeError (''expected string or bytes-like object, got '' @ [CHR 0x27]
                    @ type_name v @ [CHR 0x27])))"

definition substitute_headers :: "world \<Rightarrow> json \<Rightarrow> exn + (string \<times> string) list" where
  "substitute_headers w headers =
     (case headers of
        JDict kvs \<Rightarrow> substitute_items w kvs
      | _ \<Rightarrow> Inl (AttributeError (type_name headers) ''items''))"

subsection \<open>\<^verbatim>\<open>discover_mcp_tools\<close>\<close>

definition tools_list_request :: json where
  "tools_list_request =
     JDict [(''jsonrpc'', JStr ''2.0''), (''method'', JStr ''tools/list''), (''id'', JInt 1)]"

definition discover_mcp_tools :: "world \<Rightarrow> pydict \<Rightarrow> json outcome" where
  "discover_mcp_tools w server_config =
     and_then (lift (dict_getitem server_config ''url'')) (\<lambda>url.
     and_then (lift (substitute_headers w (dict_get server_config ''headers'' (JDict [])))) (\<lambda>headers.
     try_except
       (and_then (lift (httpx_post w url tools_list_request headers 30)) (\<lambda>response.
        and_then (lift (raise_for_status w response)) (\<lambda>_.
        and_then (lift (response_json w response)) (\<lambda>result.
        and_then (lift (py_contains (JStr ''result'') result)) (\<lambda>has_result.
        and_then (if has_result
                  then and_then (lift (py_getitem result ''result'')) (\<lambda>r.
                       lift (py_contains (JStr ''tools'') r))
                  else ret False) (\<lambda>has_tools.
        if has_tools then
          and_then (lift (py_getitem result ''result'')) (\<lambda>r.
          and_then (lift (py_getitem r ''tools'')) (\<lambda>tools.
          and_then (lift (py_len tools)) (\<lambda>n.
          and_then (lift (dict_getitem server_config ''name'')) (\<lambda>sname.
          and_then (logger INFO (''Discovered '' @ string_of_nat n @ '' tools from '' @ py_format sname)) (\<lambda>_.
          ret tools)))))
        else
          and_then (lift (dict_getitem server_config ''name'')) (\<lambda>sname.
          and_then (logger WARNING (''No tools found in response from '' @ py_format sname)) (\<lambda>_.
          ret (JList [])))))))))
       (\<lambda>e.
        and_then (lift (dict_getitem server_config ''name'')) (\<lambda>sname.
        and_then (logger ERROR (''Failed to discover tools from '' @ py_format sname @ '': '' @ exn_str e)) (\<lambda>_.
        ret (JList []))))))"

subsection \<open>\<^verbatim>\<open>call_mcp_tool\<close>\<close>

definition tools_call_request :: "json \<Rightarrow> json \<Rightarrow> json" where
  "tools_call_request tool_name arguments =
     JDict [(''jsonrpc'', JStr ''2.0''), (''method'', JStr ''tools/call''),
            (''params'', JDict [(''name'', tool_name), (''arguments'', arguments)]),
            (''id'', JInt 1)]"

text \<open>\<^verbatim>\<open>[c.get("text", str(c)) for c in content if isinstance(c, dict)]\<close>\<close>

definition content_texts :: "json list \<Rightarrow> json list" where
  "content_texts content =
     concat (map (\<lambda>c. case c of JDict d \<Rightarrow> [dict_get d ''text'' (JStr (py_str c))] | _ \<Rightarrow> []) content)"

definition call_mcp_tool :: "world \<Rightarrow> pydict \<Rightarrow> json \<Rightarrow> json \<Rightarrow> string outcome" where
  "call_mcp_tool w server_config tool_name arguments =
     and_then (lift (dict_getitem server_config ''url'')) (\<lambda>url.
     and_then (lift (substitute_headers w (dict_get server_config ''headers'' (JDict [])))) (\<lambda>headers.
     try_except
       (and_then (lift (httpx_post w url (tools_call_request tool_name arguments) headers 60)) (\<lambda>response.
        and_then (lift (raise_for_status w response)) (\<lambda>_.
        and_then (lift (response_json w response)) (\<lambda>result.
        and_then (lift (py_contains (JStr ''result'') result)) (\<lambda>has_result.
        if has_result then
          and_then (lift (py_getitem result ''result'')) (\<lambda>r.
          and_then (lift (py_get r ''content'' (JList []))) (\<lambda>content.
          case content of
            JList cs \<Rightarrow>
              (let texts = content_texts cs
               in if texts \<noteq> [] then lift (py_join [CHR 0x0A] texts) else ret (py_str content))
          | _ \<Rightarrow> ret (py_str content)))
        else
          and_then (lift (py_contains (JStr ''error'') result)) (\<lambda>has_error.
          if has_error then
            and_then (lift (py_getitem result ''error'')) (\<lambda>err.
            and_then (lift (py_get err ''message'' (JStr ''Unknown error''))) (\<lambda>msg.
            ret (''Error: '' @ py_format msg)))
          else ret (py_str result)))))))
       (\<lambda>e.
        and_then (logger ERROR (''Failed to call MCP tool '' @ py_format tool_name @ '': '' @ exn_str e)) (\<lambda>_.
        ret (''Error calling tool: '' @ exn_str e)))))"

subsection \<open>The agent framework's types\<close>

text \<open>
  \<^verbatim>\<open>ToolCall\<close>, \<^verbatim>\<open>CompletionMessage\<close> and \<^verbatim>\<open>ToolResponse\<close> come from the agent framework.
  A tool call's arguments are a string or a dictionary; a message's \<^verbatim>\<open>tool_calls\<close> may
  be \<^verbatim>\<open>None\<close>. \<open>ToolResponse\<close> takes \<^verbatim>\<open>call_id\<close>, \<^verbatim>\<open>tool_name\<close>, \<^verbatim>\<open>content\<close> and
  \<^verbatim>\<open>metadata\<close>, in this order.
\<close>

record tool_call =
  call_id :: string
  tool_name :: string
  arguments :: json

record completion_message =
  tool_calls :: "tool_call list option"

datatype tool_response = ToolResponse string string string pydict

subsection \<open>\<^verbatim>\<open>MCPClientTool\<close>\<close>

record mcp_client_tool =
  self_server_config :: pydict
  self_tool_definition :: pydict
  self_name :: string
  self_description :: json
  self_parameters :: json

definition MCPClientTool_init :: "pydict \<Rightarrow> pydict \<Rightarrow> exn + mcp_client_tool" where
  "MCPClientTool_init server_config tool_definition =
     (case dict_getitem server_config ''name'' of
        Inl e \<Rightarrow> Inl e
      | Inr sname \<Rightarrow>
          (case dict_getitem tool_definition ''name'' of
             Inl e \<Rightarrow> Inl e
           | Inr tname \<Rightarrow>
               Inr \<lparr>self_server_config = server_config,
                    self_tool_definition = tool_definition,
                    self_name = py_format sname @ ''_'' @ py_format tname,
                    self_description = dict_get tool_definition ''description'' (JStr ''''),
                    self_parameters = dict_get tool_definition ''inputSchema'' (JDict [])\<rparr>))"

definition get_name :: "mcp_client_tool \<Rightarrow> string" where
  "get_name self = self_name self"

definition get_description :: "mcp_client_tool \<Rightarrow> json" where
  "get_description self = self_description self"

definition get_params_definition :: "mcp_client_tool \<Rightarrow> json" where
  "get_params_definition self = self_parameters self"

definition get_tool_definition :: "mcp_client_tool \<Rightarrow> json" where
  "get_tool_definition self =
     JDict [(''type'', JStr ''function''),
            (''function'', JDict [(''name'', JStr (self_name self)),
                                  (''description'', self_description self),
                                  (''parameters'', self_parameters self)])]"

definition run :: "world \<Rightarrow> mcp_client_tool \<Rightarrow> completion_message list \<Rightarrow> tool_response outcome" where
  "run w self messages =
     (if messages = [] then
        ret (ToolResponse ''unknown'' (self_name self) ''No messages provided'' [])
      else
        (let last_message = last messages
         in case tool_calls last_message of
              None \<Rightarrow> ret (ToolResponse ''unknown'' (self_name self) ''No tool calls in message'' [])
            | Some [] \<Rightarrow> ret (ToolResponse ''unknown'' (self_name self) ''No tool calls in message'' [])
            | Some (tc # _) \<Rightarrow>
                and_then
                  (case arguments tc of
                     JStr s \<Rightarrow> try_except_JSONDecodeError (lift (loads w s)) (\<lambda>e. ret (JDict []))
                   | a \<Rightarrow> ret a) (\<lambda>args.
                and_then (lift (dict_getitem (self_tool_definition self) ''name'')) (\<lambda>tname.
                and_then (call_mcp_tool w (self_server_config self) tname args) (\<lambda>result.
                and_then (lift (dict_getitem (self_server_config self) ''name'')) (\<lambda>sname.
                ret (ToolResponse (call_id tc) (self_name self) result [(''mcp_server'', sname)])))))))"

text \<open>Awaiting \<^verbatim>\<open>async_run\<close> runs its body, which has no suspension point.\<close>

definition async_run :: "world \<Rightarrow> mcp_client_tool \<Rightarrow> completion_message list \<Rightarrow> tool_response outcome" where
  "async_run w self messages = run w self messages"

subsection \<open>\<^verbatim>\<open>create_mcp_client_tools\<close>\<close>

text \<open>The body of the loop over the discovered tools, and of the loop over the servers.\<close>

definition register_tool ::
  "pydict \<Rightarrow> json \<Rightarrow> json \<Rightarrow> mcp_client_tool list \<Rightarrow> mcp_client_tool list outcome" where
  "register_tool server_config tool_whitelist tool_def tools =
     (case tool_def of
        JDict td \<Rightarrow>
          (let tname = dict_get td ''name'' (JStr '''')
           in and_then (if py_truthy tool_whitelist
                        then and_then (lift (py_contains tname tool_whitelist)) (\<lambda>b. ret (\<not> b))
                        else ret False) (\<lambda>skip.
              if skip then
                and_then (logger DEBUG (''Skipping tool '' @ py_format tname @ '' (not in whitelist)'')) (\<lambda>_.
                ret tools)
              else
                and_then (lift (MCPClientTool_init server_config td)) (\<lambda>client_tool.
                and_then (logger INFO (''Registered tool: '' @ get_name client_tool)) (\<lambda>_.
                ret (tools @ [client_tool])))))
      | _ \<Rightarrow> raise (AttributeError (type_name tool_def) ''get''))"

definition process_server :: "world \<Rightarrow> json \<Rightarrow> mcp_client_tool list \<Rightarrow> mcp_client_tool list outcome" where
  "process_server w server_config tools =
     (case server_config of
        JDict cfg \<Rightarrow>
          (let server_name = dict_get cfg ''name'' (JStr ''unknown'');
               tool_whitelist = dict_get cfg ''tools'' (JList [])
           in and_then (logger INFO (''Processing MCP server: '' @ py_format server_name)) (\<lambda>_.
              and_then (discover_mcp_tools w cfg) (\<lambda>mcp_tools.
              and_then (lift (py_iter mcp_tools)) (\<lambda>tool_defs.
              for_each (register_tool cfg tool_whitelist) tool_defs tools))))
      | _ \<Rightarrow> raise (AttributeError (type_name server_config) ''get''))"

definition create_mcp_client_tools :: "world \<Rightarrow> mcp_client_tool list outcome" where
  "create_mcp_client_tools w =
     and_then (load_mcp_config w) (\<lambda>config.
     and_then (lift (py_iter config)) (\<lambda>servers.
     and_then (for_each (process_server w) servers []) (\<lambda>tools.
     and_then (logger INFO (''Total MCP tools registered: '' @ string_of_nat (length tools))) (\<lambda>_.
     ret tools))))"

section \<open>Example worlds\<close>

text \<open>
  A world for examples: the environment is a table, the decoder knows the documents of a
  table (any other text is malformed), and every request to a URL gets the reply chosen
  for that URL.
\<close>

definition demo_world ::
  "(string \<times> string) list \<Rightarrow> (string \<times> json) list \<Rightarrow> (json \<Rightarrow> exn + http_response) \<Rightarrow> world" where
  "demo_world env docs reply =
     \<lparr>getenv = map_of env,
      json_loads = (\<lambda>s. case map_of docs s of
                          Some v \<Rightarrow> Inr v
                        | None \<Rightarrow> Inl (JSONDecodeError ''Expecting value: line 1 column 1 (char 0)'')),
      httpx_post = (\<lambda>url payload headers timeout. reply url),
      status_error_message = (\<lambda>r. ''status '' @ string_of_nat (status_code r))\<rparr>"

definition ok_reply :: "string \<Rightarrow> exn + http_response" where
  "ok_reply doc = Inr \<lparr>status_code = 200, body = doc\<rparr>"

definition unreachable :: "json \<Rightarrow> exn + http_response" where
  "unreachable url = Inl (TransportError ''All connection attempts failed'')"

definition always :: "exn + http_response \<Rightarrow> json \<Rightarrow> exn + http_response" where
  "always r url = r"

text \<open>
  The text of an unfinished array that starts with an integer literal of 5000 digits: it is
  not JSON, and the decoder fails on it while it converts the literal, with the \<^verbatim>\<open>ValueError\<close>
  of the interpreter's digit limit (4300 digits), before it reaches the end of the text.
  \<open>failing_on\<close> makes the decoder of a world raise a given exception for a given text.
\<close>

definition oversized_literal :: string where
  "oversized_literal = CHR ''['' # replicate 5000 CHR ''1''"

definition digit_limit_error :: exn where
  "digit_limit_error =
     ValueError (''Exceeds the limit (4300 digits) for integer string conversion: ''
       @ ''value has 5000 digits; use sys.set_int_max_str_digits() to increase the limit'')"

definition failing_on :: "string \<Rightarrow> exn \<Rightarrow> world \<Rightarrow> world" where
  "failing_on s e w = w\<lparr>json_loads := (json_loads w)(s := Inl e)\<rparr>"

definition fs_server :: pydict where
  "fs_server = [(''name'', JStr ''fs''), (''url'', JStr ''http://localhost:8080/mcp'')]"

section \<open>The claims' vocabulary\<close>

text \<open>
  The text of one element of a \<^verbatim>\<open>content\<close> array as the specification words it: its
  \<^verbatim>\<open>text\<close> field, or the element's string form when it has no such field.
\<close>

definition element_text :: "json \<Rightarrow> string" where
  "element_text c =
     (case c of
        JDict e \<Rightarrow> (case map_of e ''text'' of None \<Rightarrow> py_str c | Some t \<Rightarrow> py_str t)
      | _ \<Rightarrow> py_str c)"

definition is_object :: "json \<Rightarrow> bool" where
  "is_object c = (case c of JDict _ \<Rightarrow> True | _ \<Rightarrow> False)"

text \<open>
  The result the specification states for a \<^verbatim>\<open>content\<close> array: the texts of all elements
  joined by newlines, and the string form of the array when that joined text is empty.
\<close>

definition stated_result_text :: "json list \<Rightarrow> string" where
  "stated_result_text cs =
     (let joined = join_strings [CHR 0x0A] (map element_text cs)
      in if joined = [] then py_str (JList cs) else joined)"





text \<open>
  The invocation response: what \<^verbatim>\<open>call_mcp_tool\<close> gets back for its request, the decoded
  JSON document (\<open>Inr\<close>) or the exception of the exchange (\<open>Inl\<close>): \<^verbatim>\<open>httpx.post\<close>, then
  \<^verbatim>\<open>raise_for_status\<close>, then \<^verbatim>\<open>response.json()\<close>. It is \<open>None\<close> when no request is made
  because the descriptor has no \<^verbatim>\<open>url\<close> or its headers cannot be built.
\<close>

definition invocation_response :: "world \<Rightarrow> pydict \<Rightarrow> json \<Rightarrow> json \<Rightarrow> (exn + json) option" where
  "invocation_response w server_config tname args =
     (case map_of server_config ''url'' of
        None \<Rightarrow> None
      | Some url \<Rightarrow>
          (case substitute_headers w (dict_get server_config ''headers'' (JDict [])) of
             Inl _ \<Rightarrow> None
           | Inr headers \<Rightarrow>
               Some (case httpx_post w url (tools_call_request tname args) headers 60 of
                       Inl e \<Rightarrow> Inl e
                     | Inr r \<Rightarrow>
                         (case raise_for_status w r of
                            Inl e \<Rightarrow> Inl e
                          | Inr _ \<Rightarrow> response_json w r))))"

definition answering :: "json \<Rightarrow> world" where
  "answering doc = demo_world [] [(''reply'', doc)] (always (ok_reply ''reply''))"

text \<open>
  The response \<^verbatim>\<open>run\<close> builds around what \<^verbatim>\<open>call_mcp_tool\<close> gave: the call's id, the
  wrapper's name, the string as content and the server's name as metadata; an exception of
  the call is an exception of \<^verbatim>\<open>run\<close>.
\<close>

definition wrap_result :: "string \<Rightarrow> string \<Rightarrow> json \<Rightarrow> exn + string \<Rightarrow> exn + tool_response" where
  "wrap_result cid name sname r =
     (case r of
        Inl e \<Rightarrow> Inl e
      | Inr result \<Rightarrow> Inr (ToolResponse cid name result [(''mcp_server'', sname)]))"

definition read_tool :: mcp_client_tool where
  "read_tool =
     \<lparr>self_server_config = fs_server,
      self_tool_definition = [(''name'', JStr ''read'')],
      self_name = ''fs_read'',
      self_description = JStr [],
      self_parameters = JDict []\<rparr>"

text \<open>
  Whether the registry keeps a discovered tool under a whitelist: the whitelist is empty,
  or the tool's name (the empty string when it has none) equals one of its entries. And the
  wrapper \<^verbatim>\<open>MCPClientTool.__init__\<close> builds for a server and a tool that both have a name.
\<close>

definition whitelisted :: "json list \<Rightarrow> pydict \<Rightarrow> bool" where
  "whitelisted ws td = (ws = [] \<or> list_ex (py_eq (dict_get td ''name'' (JStr []))) ws)"

definition wrapper :: "pydict \<Rightarrow> pydict \<Rightarrow> mcp_client_tool" where
  "wrapper server_config tool_definition =
     \<lparr>self_server_config = server_config,
      self_tool_definition = tool_definition,
      self_name = py_format (dict_get server_config ''name'' JNull) @ ''_''
                    @ py_format (dict_get tool_definition ''name'' JNull),
      self_description = dict_get tool_definition ''description'' (JStr []),
      self_parameters = dict_get tool_definition ''inputSchema'' (JDict [])\<rparr>"

text \<open>
  A registry example: \<^verbatim>\<open>MCP_SERVERS_JSON\<close> decodes to the given servers and every server
  answers \<^verbatim>\<open>tools/list\<close> with the given tool definitions.
\<close>

definition serving :: "pydict list \<Rightarrow> json list \<Rightarrow> world" where
  "serving servers tools =
     demo_world [(''MCP_SERVERS_JSON'', ''servers'')]
       [(''servers'', JList (map JDict servers)),
        (''reply'', JDict [(''result'', JDict [(''tools'', JList tools)])])]
       (always (ok_reply ''reply''))"

definition fs_read_only :: pydict where
  "fs_read_only = fs_server @ [(''tools'', JList [JStr ''read''])]"

section \<open>Basic facts\<close>

subsection \<open>Sequencing and exceptions\<close>

lemma and_then_lift_Inr: "and_then (lift (Inr x)) f = f x"
  by (simp add: and_then_def lift_def)

lemma and_then_lift_Inl: "and_then (lift (Inl e)) f = ([], Inl e)"
  by (simp add: and_then_def lift_def)

lemma and_then_ret: "and_then (ret x) f = f x"
  by (simp add: and_then_def ret_def)

lemma and_then_raise: "and_then (raise e) f = ([], Inl e)"
  by (simp add: and_then_def raise_def)

lemma and_then_logger: "and_then (logger lvl msg) f = ((lvl, msg) # fst (f ()), snd (f ()))"
  by (simp add: and_then_def logger_def)

lemma and_then_pair_Inl: "and_then (l, Inl e) f = (l, Inl e)"
  by (simp add: and_then_def)

lemma and_then_pair_Inr: "and_then (l, Inr x) f = (l @ fst (f x), snd (f x))"
  by (simp add: and_then_def)

lemma snd_and_then: "snd (and_then m f) = (case snd m of Inl e \<Rightarrow> Inl e | Inr x \<Rightarrow> snd (f x))"
  by (simp add: and_then_def split: sum.splits)

lemma try_except_pair_Inl: "try_except (l, Inl e) h = (l @ fst (h e), snd (h e))"
  by (simp add: try_except_def)

lemma try_except_pair_Inr: "try_except (l, Inr x) h = (l, Inr x)"
  by (simp add: try_except_def)

lemma try_except_lift_Inl: "try_except (lift (Inl e)) h = h e"
  by (simp add: try_except_def lift_def)

lemma try_except_JSONDecodeError_pair_Inr: "try_except_JSONDecodeError (l, Inr x) h = (l, Inr x)"
  by (simp add: try_except_JSONDecodeError_def)

lemma try_except_JSONDecodeError_pair_Inl:
  "try_except_JSONDecodeError (l, Inl e) h =
     (if is_JSONDecodeError e then (l @ fst (h e), snd (h e)) else (l, Inl e))"
  by (simp add: try_except_JSONDecodeError_def)

lemmas outcome_simps =
  and_then_lift_Inr and_then_lift_Inl and_then_ret and_then_raise and_then_logger
  and_then_pair_Inl and_then_pair_Inr try_except_pair_Inl try_except_pair_Inr
  try_except_lift_Inl try_except_JSONDecodeError_pair_Inr try_except_JSONDecodeError_pair_Inl

lemma snd_try_except:
  "snd (try_except m h) = (case snd m of Inl e \<Rightarrow> snd (h e) | Inr x \<Rightarrow> Inr x)"
  by (cases m) (auto simp: try_except_def split: sum.splits)

lemma snd_lift: "snd (lift r) = r" by (simp add: lift_def)
lemma snd_ret: "snd (ret x) = Inr x" by (simp add: ret_def)
lemma snd_raise: "snd (raise e) = Inl e" by (simp add: raise_def)
lemma snd_logger: "snd (logger l m) = Inr ()" by (simp add: logger_def)

lemmas snd_simps = snd_and_then snd_try_except snd_lift snd_ret snd_raise snd_logger

subsection \<open>Dictionaries\<close>

lemma dict_getitem_Some: "map_of d k = Some v \<Longrightarrow> dict_getitem d k = Inr v"
  by (simp add: dict_getitem_def)

lemma dict_getitem_None: "map_of d k = None \<Longrightarrow> dict_getitem d k = Inl (KeyError k)"
  by (simp add: dict_getitem_def)

lemma key_in_dict: "list_ex (\<lambda>k. k = a) (map fst d) \<longleftrightarrow> map_of d a \<noteq> None"
  by (induction d) auto

lemma py_contains_key: "py_contains (JStr a) (JDict d) = Inr (map_of d a \<noteq> None)"
  using key_in_dict [of a d] by (simp add: py_contains_def)

section \<open>Environment substitution\<close>

subsection \<open>What the pattern matches\<close>

lemma word_char_in_run: "i < length (takeWhile P s) \<Longrightarrow> P (s ! i)"
  by (metis nth_mem set_takeWhileD takeWhile_nth)

lemma match_close_brace:
  "match_here [Lit CHR ''}''] s = (case s of [] \<Rightarrow> None | x # t \<Rightarrow> if x = CHR ''}'' then Some ([], t) else None)"
  by (simp split: list.splits)

lemma not_word_close_brace: "\<not> is_word_char CHR ''}''"
  by (simp add: is_word_char_def)

lemma match_group_short:
  "n < length (takeWhile is_word_char s) \<Longrightarrow> match_group [Lit CHR ''}''] s n = None"
proof (induction n)
  case 0
  show ?case by simp
next
  case (Suc n)
  then have len: "Suc n < length s"
    by (meson length_takeWhile_le less_le_trans)
  have w: "is_word_char (s ! Suc n)" using Suc.prems by (rule word_char_in_run)
  have "drop (Suc n) s = s ! Suc n # drop (Suc (Suc n)) s"
    using len by (simp add: Cons_nth_drop_Suc)
  moreover have "s ! Suc n \<noteq> CHR ''}''" using w not_word_close_brace by auto
  ultimately have "match_here [Lit CHR ''}''] (drop (Suc n) s) = None"
    by (simp add: match_close_brace)
  then show ?case using Suc by simp
qed

lemma match_group_full:
  "match_group [Lit CHR ''}''] s (length (takeWhile is_word_char s)) =
     (if takeWhile is_word_char s \<noteq> [] \<and> (\<exists>r. dropWhile is_word_char s = CHR ''}'' # r)
      then Some (takeWhile is_word_char s, tl (dropWhile is_word_char s)) else None)"
proof (cases "length (takeWhile is_word_char s)")
  case 0
  then show ?thesis by simp
next
  case (Suc n)
  have d: "drop (Suc n) s = dropWhile is_word_char s"
    using Suc by (metis dropWhile_eq_drop)
  have t: "take (Suc n) s = takeWhile is_word_char s"
    using Suc by (metis takeWhile_eq_take)
  have short: "match_group [Lit CHR ''}''] s n = None"
    using Suc by (simp add: match_group_short)
  have ne: "takeWhile is_word_char s \<noteq> []" using Suc by auto
  show ?thesis
  proof (cases "\<exists>r. dropWhile is_word_char s = CHR ''}'' # r")
    case True
    then obtain r where r: "dropWhile is_word_char s = CHR ''}'' # r" by blast
    then have "match_here [Lit CHR ''}''] (drop (Suc n) s) = Some ([], r)"
      using d by (simp add: match_close_brace)
    then have "match_group [Lit CHR ''}''] s (Suc n) = Some (takeWhile is_word_char s, r)"
      using t by simp
    then show ?thesis using Suc r ne by simp
  next
    case False
    then have "match_here [Lit CHR ''}''] (drop (Suc n) s) = None"
      using d by (simp add: match_close_brace split: list.splits)
    then have "match_group [Lit CHR ''}''] s (Suc n) = None"
      using short by simp
    then show ?thesis using Suc False by simp
  qed
qed

lemma match_env_var_iff:
  "match_here env_var_pattern s = Some (g, r) \<longleftrightarrow>
     g \<noteq> [] \<and> list_all is_word_char g \<and> s = ''${'' @ g @ ''}'' @ r"
proof
  assume m: "match_here env_var_pattern s = Some (g, r)"
  then obtain t where s: "s = CHR ''$'' # CHR ''{'' # t"
    by (auto simp: env_var_pattern_def split: list.splits if_splits)
  from m s have "match_group [Lit CHR ''}''] t (length (takeWhile is_word_char t)) = Some (g, r)"
    by (simp add: env_var_pattern_def)
  then have g: "g = takeWhile is_word_char t" and ne: "g \<noteq> []"
    and d: "dropWhile is_word_char t = CHR ''}'' # r"
    by (auto simp: match_group_full split: if_splits)
  have "t = g @ CHR ''}'' # r"
    using g d by (metis takeWhile_dropWhile_id)
  moreover have "list_all is_word_char g"
    using g by (simp add: list_all_iff) (meson set_takeWhileD)
  ultimately show "g \<noteq> [] \<and> list_all is_word_char g \<and> s = ''${'' @ g @ ''}'' @ r"
    using s ne by simp
next
  assume a: "g \<noteq> [] \<and> list_all is_word_char g \<and> s = ''${'' @ g @ ''}'' @ r"
  then have all: "\<And>x. x \<in> set g \<Longrightarrow> is_word_char x" by (simp add: list_all_iff)
  have tw: "takeWhile is_word_char (g @ CHR ''}'' # r) = g"
    using all by (simp add: takeWhile_append2 not_word_close_brace)
  have dw: "dropWhile is_word_char (g @ CHR ''}'' # r) = CHR ''}'' # r"
    using all by (simp add: dropWhile_append2 not_word_close_brace)
  from a have s: "s = CHR ''$'' # CHR ''{'' # (g @ CHR ''}'' # r)" by simp
  have "match_group [Lit CHR ''}''] (g @ CHR ''}'' # r) (length (takeWhile is_word_char (g @ CHR ''}'' # r))) = Some (g, r)"
    unfolding match_group_full using tw dw a by simp
  then show "match_here env_var_pattern s = Some (g, r)"
    unfolding s by (simp add: env_var_pattern_def)
qed

lemma re_sub_match:
  assumes "g \<noteq> []" "list_all is_word_char g"
  shows "re_sub env_var_pattern repl (''${'' @ g @ ''}'' @ r) = repl g @ re_sub env_var_pattern repl r"
proof -
  have "match_here env_var_pattern (''${'' @ g @ ''}'' @ r) = Some (g, r)"
    using assms by (simp add: match_env_var_iff)
  then have "match_here env_var_pattern (CHR ''$'' # CHR ''{'' # g @ CHR ''}'' # r) = Some (g, r)" by simp
  then show ?thesis by simp
qed

lemma re_sub_no_match:
  assumes "\<nexists>g r. g \<noteq> [] \<and> list_all is_word_char g \<and> c # s = ''${'' @ g @ ''}'' @ r"
  shows "re_sub env_var_pattern repl (c # s) = c # re_sub env_var_pattern repl s"
proof -
  have "match_here env_var_pattern (c # s) = None"
  proof (cases "match_here env_var_pattern (c # s)")
    case None then show ?thesis .
  next
    case (Some a)
    then obtain g r where "match_here env_var_pattern (c # s) = Some (g, r)" by (cases a) auto
    then show ?thesis using assms match_env_var_iff by blast
  qed
  then show ?thesis by simp
qed

lemma re_sub_identity:
  assumes "\<nexists>pre g post. g \<noteq> [] \<and> list_all is_word_char g \<and> t = pre @ ''${'' @ g @ ''}'' @ post"
  shows "re_sub env_var_pattern repl t = t"
  using assms
proof (induction t)
  case Nil
  show ?case by simp
next
  case (Cons c s)
  have here: "\<nexists>g r. g \<noteq> [] \<and> list_all is_word_char g \<and> c # s = ''${'' @ g @ ''}'' @ r"
  proof
    assume "\<exists>g r. g \<noteq> [] \<and> list_all is_word_char g \<and> c # s = ''${'' @ g @ ''}'' @ r"
    then obtain g r where "g \<noteq> [] \<and> list_all is_word_char g \<and> c # s = [] @ ''${'' @ g @ ''}'' @ r" by auto
    then show False using Cons.prems by blast
  qed
  have later: "\<nexists>pre g post. g \<noteq> [] \<and> list_all is_word_char g \<and> s = pre @ ''${'' @ g @ ''}'' @ post"
  proof
    assume "\<exists>pre g post. g \<noteq> [] \<and> list_all is_word_char g \<and> s = pre @ ''${'' @ g @ ''}'' @ post"
    then obtain pre g post where "g \<noteq> [] \<and> list_all is_word_char g \<and> c # s = (c # pre) @ ''${'' @ g @ ''}'' @ post" by auto
    then show False using Cons.prems by blast
  qed
  show ?case using re_sub_no_match [OF here] Cons.IH [OF later] by simp
qed

lemma substitute_no_dollar:
  assumes "CHR ''$'' \<notin> set t"
  shows "substitute_env_vars w t = t"
proof -
  have "\<nexists>pre g post. g \<noteq> [] \<and> list_all is_word_char g \<and> t = pre @ ''${'' @ g @ ''}'' @ post"
  proof
    assume "\<exists>pre g post. g \<noteq> [] \<and> list_all is_word_char g \<and> t = pre @ ''${'' @ g @ ''}'' @ post"
    then obtain pre g post where "t = pre @ ''${'' @ g @ ''}'' @ post" by blast
    then have "set t = set (pre @ ''${'' @ g @ ''}'' @ post)" by simp
    then have "CHR ''$'' \<in> set t" by simp
    then show False using assms by simp
  qed
  then show ?thesis
    unfolding substitute_env_vars_def Let_def by (rule re_sub_identity)
qed

text \<open>
  C7. For every input string and environment, \<^verbatim>\<open>substitute_env_vars\<close> replaces each
  occurrence of \<^verbatim>\<open>${IDENTIFIER}\<close>, the identifier a non-empty run of word characters (the
  alphanumeric characters, not only the ASCII ones, and the underscore), by
  the value of that environment variable, or by the empty string when it is unset, and goes
  on after the occurrence; a character at which no occurrence starts is copied unchanged;
  and a string in which no occurrence lies anywhere is returned as it is.
\<close>

theorem substitute_env_vars_replaces_placeholders:
  "(v \<noteq> [] \<and> list_all is_word_char v \<longrightarrow>
      substitute_env_vars w (''${'' @ v @ ''}'' @ rest) =
        (case getenv w v of None \<Rightarrow> [] | Some x \<Rightarrow> x) @ substitute_env_vars w rest)
   \<and> ((\<nexists>g r. g \<noteq> [] \<and> list_all is_word_char g \<and> c # s = ''${'' @ g @ ''}'' @ r) \<longrightarrow>
      substitute_env_vars w (c # s) = c # substitute_env_vars w s)
   \<and> substitute_env_vars w [] = []
   \<and> ((\<nexists>pre g post. g \<noteq> [] \<and> list_all is_word_char g \<and> t = pre @ ''${'' @ g @ ''}'' @ post) \<longrightarrow>
      substitute_env_vars w t = t)"
proof (intro conjI impI)
  assume "v \<noteq> [] \<and> list_all is_word_char v"
  then show "substitute_env_vars w (''${'' @ v @ ''}'' @ rest) =
        (case getenv w v of None \<Rightarrow> [] | Some x \<Rightarrow> x) @ substitute_env_vars w rest"
    using re_sub_match [of v "\<lambda>var_name. os_getenv w var_name []" rest]
    by (simp add: substitute_env_vars_def os_getenv_def)
next
  assume "\<nexists>g r. g \<noteq> [] \<and> list_all is_word_char g \<and> c # s = ''${'' @ g @ ''}'' @ r"
  then show "substitute_env_vars w (c # s) = c # substitute_env_vars w s"
    unfolding substitute_env_vars_def Let_def by (rule re_sub_no_match)
next
  show "substitute_env_vars w [] = []"
    by (simp add: substitute_env_vars_def)
next
  assume "\<nexists>pre g post. g \<noteq> [] \<and> list_all is_word_char g \<and> t = pre @ ''${'' @ g @ ''}'' @ post"
  then show "substitute_env_vars w t = t"
    unfolding substitute_env_vars_def Let_def by (rule re_sub_identity)
qed

theorem substitute_env_vars_replaces_placeholders_witness:
  "substitute_env_vars (demo_world [(''TOKEN'', ''abc'')] [] unreachable) ''${TOKEN}${UNSET}!'' = ''abc!''
   \<and> substitute_env_vars (demo_world [(''TOKEN'', ''abc'')] [] unreachable) (''${caf'' @ [CHR 0xE9] @ ''}'') = []
   \<and> substitute_env_vars (demo_world [(''TOKEN'', ''abc'')] [] unreachable) ''${a-b}'' = ''${a-b}''
   \<and> substitute_env_vars (demo_world [(''TOKEN'', ''abc'')] [] unreachable) ''{TOKEN}'' = ''{TOKEN}''"
proof (intro conjI)
  let ?w = "demo_world [(''TOKEN'', ''abc'')] [] unreachable"
  have id1: "''TOKEN'' \<noteq> [] \<and> list_all is_word_char ''TOKEN''"
    and id2: "''UNSET'' \<noteq> [] \<and> list_all is_word_char ''UNSET''"
    by (simp_all add: is_word_char_def)
  have no: "\<nexists>g r. g \<noteq> [] \<and> list_all is_word_char g \<and> CHR ''!'' # [] = ''${'' @ g @ ''}'' @ r"
    by simp
  have a: "substitute_env_vars ?w (''${'' @ ''TOKEN'' @ ''}'' @ ''${UNSET}!'') =
             (case getenv ?w ''TOKEN'' of None \<Rightarrow> [] | Some x \<Rightarrow> x) @ substitute_env_vars ?w ''${UNSET}!''"
    using substitute_env_vars_replaces_placeholders [of "''TOKEN''" ?w "''${UNSET}!''"] id1 by blast
  have b: "substitute_env_vars ?w (''${'' @ ''UNSET'' @ ''}'' @ ''!'') =
             (case getenv ?w ''UNSET'' of None \<Rightarrow> [] | Some x \<Rightarrow> x) @ substitute_env_vars ?w ''!''"
    using substitute_env_vars_replaces_placeholders [of "''UNSET''" ?w "''!''"] id2 by blast
  have c: "substitute_env_vars ?w (CHR ''!'' # []) = CHR ''!'' # substitute_env_vars ?w []"
    using substitute_env_vars_replaces_placeholders [of _ ?w _ "CHR ''!''" "[]"] no by blast
  have d: "substitute_env_vars ?w [] = []"
    using substitute_env_vars_replaces_placeholders [of _ ?w] by blast
  show "substitute_env_vars ?w ''${TOKEN}${UNSET}!'' = ''abc!''"
    using a b c d by (simp add: demo_world_def)
next
  let ?w = "demo_world [(''TOKEN'', ''abc'')] [] unreachable"
  have id: "''caf'' @ [CHR 0xE9] \<noteq> [] \<and> list_all is_word_char (''caf'' @ [CHR 0xE9])"
    by (simp add: is_word_char_def)
  have "substitute_env_vars ?w (''${'' @ (''caf'' @ [CHR 0xE9]) @ ''}'' @ []) =
          (case getenv ?w (''caf'' @ [CHR 0xE9]) of None \<Rightarrow> [] | Some x \<Rightarrow> x) @ substitute_env_vars ?w []"
    using substitute_env_vars_replaces_placeholders [of "''caf'' @ [CHR 0xE9]" ?w "[]"] id by blast
  moreover have "substitute_env_vars ?w [] = []"
    using substitute_env_vars_replaces_placeholders [of _ ?w] by blast
  ultimately show "substitute_env_vars ?w (''${caf'' @ [CHR 0xE9] @ ''}'') = []"
    by (simp add: demo_world_def)
next
  let ?w = "demo_world [(''TOKEN'', ''abc'')] [] unreachable"
  have no: "\<nexists>pre g post. g \<noteq> [] \<and> list_all is_word_char g \<and> ''${a-b}'' = pre @ ''${'' @ g @ ''}'' @ post"
  proof
    assume "\<exists>pre g post. g \<noteq> [] \<and> list_all is_word_char g \<and> ''${a-b}'' = pre @ ''${'' @ g @ ''}'' @ post"
    then obtain pre g post where g: "g \<noteq> []" "list_all is_word_char g"
      and e: "''${a-b}'' = pre @ ''${'' @ g @ ''}'' @ post" by blast
    from e have "pre = []" by (cases pre) (auto simp: Cons_eq_append_conv)
    with e have "''a-b}'' = g @ ''}'' @ post" by simp
    with g show False
      by (auto simp: Cons_eq_append_conv is_word_char_def)
  qed
  show "substitute_env_vars ?w ''${a-b}'' = ''${a-b}''"
    using substitute_env_vars_replaces_placeholders [of _ ?w _ _ _ "''${a-b}''"] no by blast
next
  let ?w = "demo_world [(''TOKEN'', ''abc'')] [] unreachable"
  have no: "\<nexists>pre g post. g \<noteq> [] \<and> list_all is_word_char g \<and> ''{TOKEN}'' = pre @ ''${'' @ g @ ''}'' @ post"
  proof
    assume "\<exists>pre g post. g \<noteq> [] \<and> list_all is_word_char g \<and> ''{TOKEN}'' = pre @ ''${'' @ g @ ''}'' @ post"
    then obtain pre g post where "''{TOKEN}'' = pre @ ''${'' @ g @ ''}'' @ post" by blast
    then have "set ''{TOKEN}'' = set (pre @ ''${'' @ g @ ''}'' @ post)" by simp
    then have "CHR ''$'' \<in> set ''{TOKEN}''" by simp
    then show False by simp
  qed
  show "substitute_env_vars ?w ''{TOKEN}'' = ''{TOKEN}''"
    using substitute_env_vars_replaces_placeholders [of _ ?w _ _ _ "''{TOKEN}''"] no by blast
qed

section \<open>Loading the configuration\<close>

lemma substitute_brackets: "substitute_env_vars w ''[]'' = ''[]''"
  by (simp add: substitute_env_vars_def env_var_pattern_def)

lemma create_of_empty_config:
  "snd (load_mcp_config w) = Inr (JList []) \<Longrightarrow> snd (create_mcp_client_tools w) = Inr []"
  by (simp add: create_mcp_client_tools_def snd_and_then py_iter_def outcome_simps ret_def)

lemma load_decode_error:
  assumes "json_loads w (substitute_env_vars w (os_getenv w ''MCP_SERVERS_JSON'' ''[]'')) = Inl (JSONDecodeError msg)"
  shows "load_mcp_config w = ([(ERROR, ''Failed to parse MCP_SERVERS_JSON: '' @ msg)], Inr (JList []))"
  using assms
  by (simp add: load_mcp_config_def loads_def lift_def outcome_simps ret_def
      is_JSONDecodeError_def exn_str_def)

lemma load_other_error:
  assumes "json_loads w (substitute_env_vars w (os_getenv w ''MCP_SERVERS_JSON'' ''[]'')) = Inl e"
      and "\<forall>msg. e \<noteq> JSONDecodeError msg"
  shows "load_mcp_config w = ([], Inl e)"
proof -
  have "\<not> is_JSONDecodeError e"
    using assms(2) by (cases e) (simp_all add: is_JSONDecodeError_def)
  then show ?thesis
    using assms(1)
    by (simp add: load_mcp_config_def loads_def lift_def outcome_simps)
qed

lemma oversized_literal_unchanged: "substitute_env_vars w oversized_literal = oversized_literal"
  by (rule substitute_no_dollar) (simp add: oversized_literal_def)

text \<open>
  C6 (amended). \<^verbatim>\<open>load_mcp_config\<close> returns the empty list and raises nothing, both when
  \<^verbatim>\<open>MCP_SERVERS_JSON\<close> is unset (the default \<^verbatim>\<open>"[]"\<close> is decoded) and when the decoder rejects
  the text after substitution with a \<^verbatim>\<open>JSONDecodeError\<close>; in the second case exactly one
  record, at level ERROR with the decoder's message, is logged, and \<^verbatim>\<open>create_mcp_client_tools\<close>
  goes on with no server and returns no tool. An exception of the decoder that is not a
  \<^verbatim>\<open>JSONDecodeError\<close> is not caught: the call raises it and logs nothing.
\<close>

theorem load_mcp_config_default_or_malformed:
  "(getenv w ''MCP_SERVERS_JSON'' = None \<and> json_loads w ''[]'' = Inr (JList []) \<longrightarrow>
      load_mcp_config w = ([(INFO, ''Loaded 0 MCP server configurations'')], Inr (JList [])))
   \<and> (\<forall>msg. json_loads w (substitute_env_vars w (os_getenv w ''MCP_SERVERS_JSON'' ''[]'')) =
               Inl (JSONDecodeError msg) \<longrightarrow>
      load_mcp_config w = ([(ERROR, ''Failed to parse MCP_SERVERS_JSON: '' @ msg)], Inr (JList [])))
   \<and> (\<forall>e. json_loads w (substitute_env_vars w (os_getenv w ''MCP_SERVERS_JSON'' ''[]'')) = Inl e \<and>
            (\<forall>msg. e \<noteq> JSONDecodeError msg) \<longrightarrow>
      load_mcp_config w = ([], Inl e))
   \<and> (snd (load_mcp_config w) = Inr (JList []) \<longrightarrow> snd (create_mcp_client_tools w) = Inr [])"
proof (intro conjI impI allI)
  assume a: "getenv w ''MCP_SERVERS_JSON'' = None \<and> json_loads w ''[]'' = Inr (JList [])"
  then show "load_mcp_config w = ([(INFO, ''Loaded 0 MCP server configurations'')], Inr (JList []))"
    by (simp add: load_mcp_config_def os_getenv_def substitute_brackets loads_def lift_def
        py_len_def outcome_simps ret_def digit_char_def)
next
  fix msg
  assume "json_loads w (substitute_env_vars w (os_getenv w ''MCP_SERVERS_JSON'' ''[]'')) =
            Inl (JSONDecodeError msg)"
  then show "load_mcp_config w = ([(ERROR, ''Failed to parse MCP_SERVERS_JSON: '' @ msg)], Inr (JList []))"
    by (rule load_decode_error)
next
  fix e
  assume "json_loads w (substitute_env_vars w (os_getenv w ''MCP_SERVERS_JSON'' ''[]'')) = Inl e \<and>
            (\<forall>msg. e \<noteq> JSONDecodeError msg)"
  then show "load_mcp_config w = ([], Inl e)"
    using load_other_error by blast
next
  assume "snd (load_mcp_config w) = Inr (JList [])"
  then show "snd (create_mcp_client_tools w) = Inr []" by (rule create_of_empty_config)
qed

theorem load_mcp_config_default_or_malformed_witness:
  "load_mcp_config (demo_world [] [(''[]'', JList [])] unreachable) =
     ([(INFO, ''Loaded 0 MCP server configurations'')], Inr (JList []))
   \<and> load_mcp_config (demo_world [(''MCP_SERVERS_JSON'', ''[{oops'')] [(''[]'', JList [])] unreachable) =
     ([(ERROR, ''Failed to parse MCP_SERVERS_JSON: Expecting value: line 1 column 1 (char 0)'')], Inr (JList []))
   \<and> snd (create_mcp_client_tools (demo_world [(''MCP_SERVERS_JSON'', ''[{oops'')] [(''[]'', JList [])] unreachable)) = Inr []
   \<and> load_mcp_config (failing_on ''[[[['' (RecursionError ''maximum recursion depth exceeded'')
                        (demo_world [(''MCP_SERVERS_JSON'', ''[[[['')] [] unreachable)) =
     ([], Inl (RecursionError ''maximum recursion depth exceeded''))"
proof -
  let ?a = "demo_world [] [(''[]'', JList [])] unreachable"
  let ?b = "demo_world [(''MCP_SERVERS_JSON'', ''[{oops'')] [(''[]'', JList [])] unreachable"
  let ?c = "failing_on ''[[[['' (RecursionError ''maximum recursion depth exceeded'')
              (demo_world [(''MCP_SERVERS_JSON'', ''[[[['')] [] unreachable)"
  have ha: "getenv ?a ''MCP_SERVERS_JSON'' = None \<and> json_loads ?a ''[]'' = Inr (JList [])"
    by (simp add: demo_world_def)
  have sb: "substitute_env_vars ?b ''[{oops'' = ''[{oops''"
    by (rule substitute_no_dollar) simp
  have hb: "json_loads ?b (substitute_env_vars ?b (os_getenv ?b ''MCP_SERVERS_JSON'' ''[]'')) =
              Inl (JSONDecodeError ''Expecting value: line 1 column 1 (char 0)'')"
    unfolding os_getenv_def using sb by (simp add: demo_world_def)
  have sc: "substitute_env_vars ?c ''[[[['' = ''[[[[''"
    by (rule substitute_no_dollar) simp
  have hc: "json_loads ?c (substitute_env_vars ?c (os_getenv ?c ''MCP_SERVERS_JSON'' ''[]'')) =
              Inl (RecursionError ''maximum recursion depth exceeded'')
            \<and> (\<forall>msg. RecursionError ''maximum recursion depth exceeded'' \<noteq> JSONDecodeError msg)"
    unfolding os_getenv_def using sc by (simp add: demo_world_def failing_on_def)
  have 1: "load_mcp_config ?a = ([(INFO, ''Loaded 0 MCP server configurations'')], Inr (JList []))"
    using load_mcp_config_default_or_malformed [of ?a] ha by blast
  have 2: "load_mcp_config ?b =
      ([(ERROR, ''Failed to parse MCP_SERVERS_JSON: '' @ ''Expecting value: line 1 column 1 (char 0)'')], Inr (JList []))"
    using load_mcp_config_default_or_malformed [of ?b] hb by blast
  have 3: "snd (create_mcp_client_tools ?b) = Inr []"
    using load_mcp_config_default_or_malformed [of ?b] 2 by simp
  have 4: "load_mcp_config ?c = ([], Inl (RecursionError ''maximum recursion depth exceeded''))"
    using load_mcp_config_default_or_malformed [of ?c] hc by blast
  show ?thesis using 1 2 3 4 by simp
qed

text \<open>
  C6 as stated fails: the text of \<open>oversized_literal\<close> is malformed JSON, the decoder raises
  \<^verbatim>\<open>ValueError\<close> on it, and \<^verbatim>\<open>load_mcp_config\<close>, which catches \<^verbatim>\<open>JSONDecodeError\<close> only, raises
  that exception instead of returning the empty list.
\<close>

theorem load_mcp_config_malformed_raises_counterexample:
  "load_mcp_config
     (failing_on oversized_literal digit_limit_error
        (demo_world [(''MCP_SERVERS_JSON'', oversized_literal)] [] unreachable)) =
     ([], Inl digit_limit_error)
   \<and> snd (load_mcp_config
            (failing_on oversized_literal digit_limit_error
               (demo_world [(''MCP_SERVERS_JSON'', oversized_literal)] [] unreachable))) \<noteq> Inr (JList [])"
proof -
  let ?w = "failing_on oversized_literal digit_limit_error
              (demo_world [(''MCP_SERVERS_JSON'', oversized_literal)] [] unreachable)"
  have "json_loads ?w (substitute_env_vars ?w (os_getenv ?w ''MCP_SERVERS_JSON'' ''[]'')) = Inl digit_limit_error"
    unfolding os_getenv_def
    by (simp add: demo_world_def failing_on_def oversized_literal_unchanged)
  moreover have "\<forall>msg. digit_limit_error \<noteq> JSONDecodeError msg"
    by (simp add: digit_limit_error_def)
  ultimately have "load_mcp_config ?w = ([], Inl digit_limit_error)"
    by (rule load_other_error)
  then show ?thesis by simp
qed

text \<open>
  C10. \<^verbatim>\<open>load_mcp_config\<close> catches the decoder's error only. When the text decodes to
  a value that is not an array, a value with a length (an object, a string) is returned as it
  is, and a value without a length (a number, a boolean, \<^verbatim>\<open>null\<close>) makes the call raise
  \<^verbatim>\<open>TypeError\<close> where the log message is built, before anything is logged.
\<close>

theorem load_mcp_config_not_an_array:
  assumes "json_loads w (substitute_env_vars w (os_getenv w ''MCP_SERVERS_JSON'' ''[]'')) = Inr v"
  shows "(\<forall>d. v = JDict d \<longrightarrow> snd (load_mcp_config w) = Inr (JDict d))
       \<and> (\<forall>s. v = JStr s \<longrightarrow> snd (load_mcp_config w) = Inr (JStr s))
       \<and> (\<forall>i. v = JInt i \<longrightarrow> load_mcp_config w = ([], Inl (TypeError ''object of type 'int' has no len()'')))
       \<and> (v = JNull \<or> (\<exists>b. v = JBool b) \<or> (\<exists>i. v = JInt i) \<longrightarrow> (\<exists>m. load_mcp_config w = ([], Inl (TypeError m))))
       \<and> (py_len v = Inr n \<longrightarrow> load_mcp_config w = ([(INFO, ''Loaded '' @ string_of_nat n @ '' MCP server configurations'')], Inr v))"
  using assms
  by (auto simp add: load_mcp_config_def loads_def lift_def outcome_simps ret_def py_len_def type_name_def
        is_JSONDecodeError_def)

theorem load_mcp_config_not_an_array_witness:
  "snd (load_mcp_config (demo_world [(''MCP_SERVERS_JSON'', ''{}'')] [(''{}'', JDict []), (''5'', JInt 5)] unreachable)) = Inr (JDict [])
   \<and> load_mcp_config (demo_world [(''MCP_SERVERS_JSON'', ''5'')] [(''{}'', JDict []), (''5'', JInt 5)] unreachable) =
       ([], Inl (TypeError ''object of type 'int' has no len()''))"
proof -
  let ?a = "demo_world [(''MCP_SERVERS_JSON'', ''{}'')] [(''{}'', JDict []), (''5'', JInt 5)] unreachable"
  let ?b = "demo_world [(''MCP_SERVERS_JSON'', ''5'')] [(''{}'', JDict []), (''5'', JInt 5)] unreachable"
  have sa: "substitute_env_vars ?a ''{}'' = ''{}''" and sb: "substitute_env_vars ?b ''5'' = ''5''"
    by (simp_all add: substitute_env_vars_def env_var_pattern_def)
  have ha: "json_loads ?a (substitute_env_vars ?a (os_getenv ?a ''MCP_SERVERS_JSON'' ''[]'')) = Inr (JDict [])"
    unfolding os_getenv_def using sa by (simp add: demo_world_def)
  have hb: "json_loads ?b (substitute_env_vars ?b (os_getenv ?b ''MCP_SERVERS_JSON'' ''[]'')) = Inr (JInt 5)"
    unfolding os_getenv_def using sb by (simp add: demo_world_def)
  show ?thesis
    using load_mcp_config_not_an_array [OF ha] load_mcp_config_not_an_array [OF hb] by blast
qed

section \<open>Tool discovery\<close>

lemma discover_post_fails:
  assumes "map_of server_config ''url'' = Some url"
      and "map_of server_config ''name'' = Some sname"
      and "substitute_headers w (dict_get server_config ''headers'' (JDict [])) = Inr headers"
      and "httpx_post w url tools_list_request headers 30 = Inl e"
  shows "discover_mcp_tools w server_config =
           ([(ERROR, ''Failed to discover tools from '' @ py_format sname @ '': '' @ exn_str e)], Inr (JList []))"
  using assms
  by (simp add: discover_mcp_tools_def dict_getitem_Some outcome_simps ret_def)

lemma discover_bad_status:
  assumes "map_of server_config ''url'' = Some url"
      and "map_of server_config ''name'' = Some sname"
      and "substitute_headers w (dict_get server_config ''headers'' (JDict [])) = Inr headers"
      and "httpx_post w url tools_list_request headers 30 = Inr r"
      and "\<not> (200 \<le> status_code r \<and> status_code r \<le> 299)"
  shows "discover_mcp_tools w server_config =
           ([(ERROR, ''Failed to discover tools from '' @ py_format sname @ '': '' @ status_error_message w r)],
            Inr (JList []))"
proof -
  have "raise_for_status w r = Inl (HTTPStatusError (status_error_message w r))"
    using assms(5) by (simp add: raise_for_status_def)
  then show ?thesis
    using assms(1-4)
    by (simp add: discover_mcp_tools_def dict_getitem_Some outcome_simps ret_def exn_str_def)
qed

lemma discover_bad_body:
  assumes "map_of server_config ''url'' = Some url"
      and "map_of server_config ''name'' = Some sname"
      and "substitute_headers w (dict_get server_config ''headers'' (JDict [])) = Inr headers"
      and "httpx_post w url tools_list_request headers 30 = Inr r"
      and "200 \<le> status_code r \<and> status_code r \<le> 299"
      and "json_loads w (body r) = Inl e"
  shows "discover_mcp_tools w server_config =
           ([(ERROR, ''Failed to discover tools from '' @ py_format sname @ '': '' @ exn_str e)], Inr (JList []))"
proof -
  have "raise_for_status w r = Inr ()"
    using assms(5) by (simp add: raise_for_status_def)
  moreover have "response_json w r = Inl e"
    using assms(6) by (simp add: response_json_def loads_def)
  ultimately show ?thesis
    using assms(1-4)
    by (simp add: discover_mcp_tools_def dict_getitem_Some outcome_simps ret_def)
qed

lemma discover_total:
  assumes "map_of server_config ''url'' = Some url"
      and "map_of server_config ''name'' = Some sname"
      and "substitute_headers w (dict_get server_config ''headers'' (JDict [])) = Inr headers"
  shows "\<exists>v. snd (discover_mcp_tools w server_config) = Inr v"
  using assms
  by (simp add: discover_mcp_tools_def dict_getitem_Some snd_simps split: sum.splits)

lemma discover_no_tools:
  assumes "map_of server_config ''url'' = Some url"
      and "map_of server_config ''name'' = Some sname"
      and "substitute_headers w (dict_get server_config ''headers'' (JDict [])) = Inr headers"
      and "httpx_post w url tools_list_request headers 30 = Inr r"
      and "200 \<le> status_code r \<and> status_code r \<le> 299"
      and "json_loads w (body r) = Inr result"
      and "\<nexists>d rd t. result = JDict d \<and> map_of d ''result'' = Some (JDict rd) \<and> map_of rd ''tools'' = Some t"
  shows "snd (discover_mcp_tools w server_config) = Inr (JList [])"
proof -
  have rfs: "raise_for_status w r = Inr ()"
    using assms(5) by (simp add: raise_for_status_def)
  have rj: "response_json w r = Inr result"
    using assms(6) by (simp add: response_json_def loads_def)
  show ?thesis
    using assms(1-4,7) rfs rj
    by (auto simp add: discover_mcp_tools_def dict_getitem_Some snd_simps
         py_getitem_def py_contains_key dict_getitem_def
         split: sum.splits json.splits option.splits if_splits)
qed

lemma discover_tools:
  assumes "map_of server_config ''url'' = Some url"
      and "map_of server_config ''name'' = Some sname"
      and "substitute_headers w (dict_get server_config ''headers'' (JDict [])) = Inr headers"
      and "httpx_post w url tools_list_request headers 30 = Inr r"
      and "200 \<le> status_code r \<and> status_code r \<le> 299"
      and "json_loads w (body r) = Inr (JDict d)"
      and "map_of d ''result'' = Some (JDict rd)"
      and "map_of rd ''tools'' = Some t"
      and "py_len t = Inr n"
  shows "discover_mcp_tools w server_config =
           ([(INFO, ''Discovered '' @ string_of_nat n @ '' tools from '' @ py_format sname)], Inr t)"
proof -
  have rfs: "raise_for_status w r = Inr ()"
    using assms(5) by (simp add: raise_for_status_def)
  have rj: "response_json w r = Inr (JDict d)"
    using assms(6) by (simp add: response_json_def loads_def)
  show ?thesis
    using assms(1-4,7-9) rfs rj
    by (simp add: discover_mcp_tools_def dict_getitem_Some outcome_simps ret_def
         py_getitem_def py_contains_key)
qed

lemma discover_needs_name:
  assumes "snd (discover_mcp_tools w server_config) = Inr v"
  shows "map_of server_config ''name'' \<noteq> None"
proof
  assume "map_of server_config ''name'' = None"
  then have n: "dict_getitem server_config ''name'' = Inl (KeyError ''name'')"
    by (rule dict_getitem_None)
  have "\<exists>e. snd (discover_mcp_tools w server_config) = Inl e"
    unfolding discover_mcp_tools_def
    by (simp add: snd_simps n split: sum.splits)
  then show False using assms by simp
qed

text \<open>
  C3 (amended). For every server descriptor that has a \<^verbatim>\<open>url\<close> and a \<^verbatim>\<open>name\<close> and whose
  headers, if any, are a dictionary of strings, \<^verbatim>\<open>discover_mcp_tools\<close> returns the empty list
  when the request raises (network error, timeout, unreachable server), when the status is
  not 2xx, when the body does not decode, and when the decoded response has no
  \<^verbatim>\<open>result.tools\<close>; and whatever the server does, the call returns a value and raises
  nothing.
\<close>

theorem discover_mcp_tools_empty_on_failure:
  assumes "map_of server_config ''url'' = Some url"
      and "map_of server_config ''name'' = Some sname"
      and "substitute_headers w (dict_get server_config ''headers'' (JDict [])) = Inr headers"
  shows "(\<forall>e. httpx_post w url tools_list_request headers 30 = Inl e \<longrightarrow>
            snd (discover_mcp_tools w server_config) = Inr (JList []))
       \<and> (\<forall>r. httpx_post w url tools_list_request headers 30 = Inr r \<and>
              \<not> (200 \<le> status_code r \<and> status_code r \<le> 299) \<longrightarrow>
            snd (discover_mcp_tools w server_config) = Inr (JList []))
       \<and> (\<forall>r e. httpx_post w url tools_list_request headers 30 = Inr r \<and>
              200 \<le> status_code r \<and> status_code r \<le> 299 \<and> json_loads w (body r) = Inl e \<longrightarrow>
            snd (discover_mcp_tools w server_config) = Inr (JList []))
       \<and> (\<forall>r result. httpx_post w url tools_list_request headers 30 = Inr r \<and>
              200 \<le> status_code r \<and> status_code r \<le> 299 \<and> json_loads w (body r) = Inr result \<and>
              (\<nexists>d rd t. result = JDict d \<and> map_of d ''result'' = Some (JDict rd) \<and>
                          map_of rd ''tools'' = Some t) \<longrightarrow>
            snd (discover_mcp_tools w server_config) = Inr (JList []))
       \<and> (\<exists>v. snd (discover_mcp_tools w server_config) = Inr v)"
proof (intro conjI allI impI)
  fix e
  assume "httpx_post w url tools_list_request headers 30 = Inl e"
  then show "snd (discover_mcp_tools w server_config) = Inr (JList [])"
    using discover_post_fails [OF assms] by simp
next
  fix r
  assume "httpx_post w url tools_list_request headers 30 = Inr r \<and>
          \<not> (200 \<le> status_code r \<and> status_code r \<le> 299)"
  then show "snd (discover_mcp_tools w server_config) = Inr (JList [])"
    using discover_bad_status [OF assms] by simp
next
  fix r e
  assume "httpx_post w url tools_list_request headers 30 = Inr r \<and>
          200 \<le> status_code r \<and> status_code r \<le> 299 \<and> json_loads w (body r) = Inl e"
  then show "snd (discover_mcp_tools w server_config) = Inr (JList [])"
    using discover_bad_body [OF assms, of r e] by simp
next
  fix r result
  assume "httpx_post w url tools_list_request headers 30 = Inr r \<and>
          200 \<le> status_code r \<and> status_code r \<le> 299 \<and> json_loads w (body r) = Inr result \<and>
          (\<nexists>d rd t. result = JDict d \<and> map_of d ''result'' = Some (JDict rd) \<and>
                      map_of rd ''tools'' = Some t)"
  then show "snd (discover_mcp_tools w server_config) = Inr (JList [])"
    using discover_no_tools [OF assms, of r result] by blast
next
  show "\<exists>v. snd (discover_mcp_tools w server_config) = Inr v"
    by (rule discover_total [OF assms])
qed

theorem discover_mcp_tools_empty_on_failure_witness:
  "snd (discover_mcp_tools (demo_world [] [] unreachable) fs_server) = Inr (JList [])
   \<and> snd (discover_mcp_tools
            (demo_world [] [] (always (Inr \<lparr>status_code = 503, body = []\<rparr>))) fs_server) = Inr (JList [])
   \<and> snd (discover_mcp_tools
            (demo_world [] [(''reply'', JDict [(''result'', JDict [])])] (always (ok_reply ''reply'')))
            fs_server) = Inr (JList [])"
proof -
  let ?u = "JStr ''http://localhost:8080/mcp''"
  let ?a = "demo_world [] [] unreachable"
  let ?b = "demo_world [] [] (always (Inr \<lparr>status_code = 503, body = []\<rparr>))"
  let ?c = "demo_world [] [(''reply'', JDict [(''result'', JDict [])])] (always (ok_reply ''reply''))"
  have url: "map_of fs_server ''url'' = Some ?u" and nm: "map_of fs_server ''name'' = Some (JStr ''fs'')"
    by (simp_all add: fs_server_def)
  have hs: "\<And>w. substitute_headers w (dict_get fs_server ''headers'' (JDict [])) = Inr []"
    by (simp add: fs_server_def dict_get_def substitute_headers_def)
  have pa: "httpx_post ?a ?u tools_list_request [] 30 = Inl (TransportError ''All connection attempts failed'')"
    by (simp add: demo_world_def unreachable_def)
  have pb: "httpx_post ?b ?u tools_list_request [] 30 = Inr \<lparr>status_code = 503, body = []\<rparr>
            \<and> \<not> (200 \<le> status_code \<lparr>status_code = 503, body = []\<rparr>
                  \<and> status_code \<lparr>status_code = 503, body = []\<rparr> \<le> 299)"
    by (simp add: demo_world_def always_def)
  have pc: "httpx_post ?c ?u tools_list_request [] 30 = Inr \<lparr>status_code = 200, body = ''reply''\<rparr>
            \<and> 200 \<le> status_code \<lparr>status_code = 200, body = ''reply''\<rparr>
            \<and> status_code \<lparr>status_code = 200, body = ''reply''\<rparr> \<le> 299
            \<and> json_loads ?c (body \<lparr>status_code = 200, body = ''reply''\<rparr>) = Inr (JDict [(''result'', JDict [])])
            \<and> (\<nexists>d rd t. JDict [(''result'', JDict [])] = JDict d \<and> map_of d ''result'' = Some (JDict rd)
                   \<and> map_of rd ''tools'' = Some t)"
    by (auto simp add: demo_world_def always_def ok_reply_def)
  have 1: "snd (discover_mcp_tools ?a fs_server) = Inr (JList [])"
    using discover_mcp_tools_empty_on_failure [OF url nm hs, of ?a] pa by blast
  have 2: "snd (discover_mcp_tools ?b fs_server) = Inr (JList [])"
    using discover_mcp_tools_empty_on_failure [OF url nm hs, of ?b] pb by blast
  have 3: "snd (discover_mcp_tools ?c fs_server) = Inr (JList [])"
    using discover_mcp_tools_empty_on_failure [OF url nm hs, of ?c] pc by blast
  show ?thesis using 1 2 3 by simp
qed

text \<open>
  C3 as stated, for every server descriptor, fails. The \<^verbatim>\<open>url\<close> is read and the headers are
  built before the \<^verbatim>\<open>try\<close> block, and the handler itself reads the \<^verbatim>\<open>name\<close> for its log
  message: with an unreachable server, a descriptor without a name raises \<^verbatim>\<open>KeyError\<close> from
  the handler, a descriptor without a URL raises \<^verbatim>\<open>KeyError\<close>, and a header that is not a
  string raises \<^verbatim>\<open>TypeError\<close>.
\<close>

theorem discover_mcp_tools_descriptor_counterexample:
  "discover_mcp_tools (demo_world [] [] unreachable) [(''url'', JStr ''http://localhost:8080/mcp'')] =
     ([], Inl (KeyError ''name''))
   \<and> discover_mcp_tools (demo_world [] [] unreachable) [(''name'', JStr ''fs'')] =
     ([], Inl (KeyError ''url''))
   \<and> discover_mcp_tools (demo_world [] [] unreachable)
        (fs_server @ [(''headers'', JDict [(''X-Retries'', JInt 3)])]) =
     ([], Inl (TypeError (''expected string or bytes-like object, got '' @ [CHR 0x27] @ ''int'' @ [CHR 0x27])))"
proof (intro conjI)
  show "discover_mcp_tools (demo_world [] [] unreachable) [(''url'', JStr ''http://localhost:8080/mcp'')] =
     ([], Inl (KeyError ''name''))"
    by (simp add: discover_mcp_tools_def dict_getitem_def dict_get_def substitute_headers_def
        demo_world_def unreachable_def outcome_simps)
  show "discover_mcp_tools (demo_world [] [] unreachable) [(''name'', JStr ''fs'')] =
     ([], Inl (KeyError ''url''))"
    by (simp add: discover_mcp_tools_def dict_getitem_def outcome_simps)
  show "discover_mcp_tools (demo_world [] [] unreachable)
        (fs_server @ [(''headers'', JDict [(''X-Retries'', JInt 3)])]) =
     ([], Inl (TypeError (''expected string or bytes-like object, got '' @ [CHR 0x27] @ ''int'' @ [CHR 0x27])))"
    by (simp add: discover_mcp_tools_def fs_server_def dict_getitem_def dict_get_def
        substitute_headers_def type_name_def outcome_simps)
qed

section \<open>Tool invocation\<close>




lemma call_total:
  assumes "map_of server_config ''url'' = Some url"
      and "substitute_headers w (dict_get server_config ''headers'' (JDict [])) = Inr headers"
  shows "\<exists>s. snd (call_mcp_tool w server_config tname args) = Inr s"
  using assms
  by (simp add: call_mcp_tool_def dict_getitem_Some snd_simps split: sum.splits)

text \<open>What the function makes of the value under \<^verbatim>\<open>result\<close>.\<close>

lemma call_result:
  assumes "map_of server_config ''url'' = Some url"
      and "substitute_headers w (dict_get server_config ''headers'' (JDict [])) = Inr headers"
      and "httpx_post w url (tools_call_request tname args) headers 60 = Inr r"
      and "200 \<le> status_code r \<and> status_code r \<le> 299"
      and "json_loads w (body r) = Inr (JDict d)"
      and "map_of d ''result'' = Some v"
  shows "snd (call_mcp_tool w server_config tname args) =
           Inr (case (case py_get v ''content'' (JList []) of
                        Inl e \<Rightarrow> Inl e
                      | Inr content \<Rightarrow>
                          (case content of
                             JList cs \<Rightarrow> if content_texts cs \<noteq> [] then py_join [CHR 0x0A] (content_texts cs)
                                         else Inr (py_str content)
                           | _ \<Rightarrow> Inr (py_str content))) of
                  Inl e \<Rightarrow> ''Error calling tool: '' @ exn_str e
                | Inr s \<Rightarrow> s)"
proof -
  have rfs: "raise_for_status w r = Inr ()"
    using assms(4) by (simp add: raise_for_status_def)
  have rj: "response_json w r = Inr (JDict d)"
    using assms(5) by (simp add: response_json_def loads_def)
  show ?thesis
    using assms(1-3,6) rfs rj
    by (simp add: call_mcp_tool_def dict_getitem_Some snd_simps py_contains_key py_getitem_def
        Let_def split: sum.splits json.splits)
qed




lemma invocation_response_Inr:
  assumes "invocation_response w server_config tname args = Some (Inr res)"
  obtains url headers r where "map_of server_config ''url'' = Some url"
      and "substitute_headers w (dict_get server_config ''headers'' (JDict [])) = Inr headers"
      and "httpx_post w url (tools_call_request tname args) headers 60 = Inr r"
      and "200 \<le> status_code r \<and> status_code r \<le> 299"
      and "json_loads w (body r) = Inr res"
  using assms
  by (auto simp: invocation_response_def raise_for_status_def response_json_def loads_def
      split: option.splits sum.splits if_splits)


lemma invocation_response_total:
  assumes "invocation_response w server_config tname args \<noteq> None"
  shows "\<exists>s. snd (call_mcp_tool w server_config tname args) = Inr s"
proof -
  from assms obtain url headers where u: "map_of server_config ''url'' = Some url"
    and h: "substitute_headers w (dict_get server_config ''headers'' (JDict [])) = Inr headers"
    by (auto simp: invocation_response_def split: option.splits sum.splits)
  show ?thesis by (rule call_total [OF u h])
qed

lemma strings_from_strings:
  "\<forall>v\<in>set vs. \<exists>s. v = JStr s \<Longrightarrow> strings_from i vs = Inr (map py_str vs)"
  by (induction vs arbitrary: i) (auto simp: py_str_def)

lemma is_object_simps:
  "is_object (JDict e)" "\<not> is_object JNull" "\<not> is_object (JBool b)" "\<not> is_object (JInt i)"
  "\<not> is_object (JStr s)" "\<not> is_object (JList xs)"
  by (simp_all add: is_object_def)


lemma content_texts_strings:
  assumes "\<forall>e t. JDict e \<in> set cs \<and> map_of e ''text'' = Some t \<longrightarrow> (\<exists>s. t = JStr s)"
  shows "content_texts cs = map (\<lambda>c. JStr (element_text c)) (filter is_object cs)"
  using assms
proof (induction cs)
  case Nil
  show ?case by (simp add: content_texts_def)
next
  case (Cons c cs)
  have ih: "content_texts cs = map (\<lambda>c. JStr (element_text c)) (filter is_object cs)"
    using Cons by auto
  have step: "content_texts (c # cs) =
      (case c of JDict d \<Rightarrow> [dict_get d ''text'' (JStr (py_str c))] | _ \<Rightarrow> []) @ content_texts cs"
    by (simp add: content_texts_def)
  show ?case
  proof (cases c)
    case (JDict e)
    have el: "dict_get e ''text'' (JStr (py_str c)) = JStr (element_text c)"
    proof (cases "map_of e ''text''")
      case None
      then show ?thesis using JDict by (simp add: dict_get_def element_text_def)
    next
      case (Some t)
      then obtain s where "t = JStr s" using Cons.prems JDict by auto
      then show ?thesis using JDict Some by (simp add: dict_get_def element_text_def py_str_def)
    qed
    have "content_texts (c # cs) = JStr (element_text c) # content_texts cs"
      unfolding step using el JDict by simp
    then show ?thesis unfolding ih using JDict by (simp add: is_object_simps)
  qed (use step ih in \<open>simp_all add: is_object_simps\<close>)
qed

lemma call_content_array:
  assumes inv: "invocation_response w server_config tname args = Some (Inr (JDict d))"
      and res: "map_of d ''result'' = Some (JDict rd)"
      and con: "map_of rd ''content'' = Some (JList cs)"
      and strs: "\<forall>e t. JDict e \<in> set cs \<and> map_of e ''text'' = Some t \<longrightarrow> (\<exists>s. t = JStr s)"
  shows "snd (call_mcp_tool w server_config tname args) =
           Inr (if list_ex is_object cs
                then join_strings [CHR 0x0A] (map element_text (filter is_object cs))
                else py_str (JList cs))"
proof -
  from inv obtain url headers r where u: "map_of server_config ''url'' = Some url"
      and h: "substitute_headers w (dict_get server_config ''headers'' (JDict [])) = Inr headers"
      and p: "httpx_post w url (tools_call_request tname args) headers 60 = Inr r"
      and s: "200 \<le> status_code r \<and> status_code r \<le> 299"
      and j: "json_loads w (body r) = Inr (JDict d)"
    by (rule invocation_response_Inr)
  have ct: "content_texts cs = map (\<lambda>c. JStr (element_text c)) (filter is_object cs)"
    using strs by (rule content_texts_strings)
  have ne: "content_texts cs \<noteq> [] \<longleftrightarrow> list_ex is_object cs"
    unfolding ct by (auto simp: list_ex_iff filter_empty_conv)
  have pj: "py_join [CHR 0x0A] (content_texts cs) =
              Inr (join_strings [CHR 0x0A] (map element_text (filter is_object cs)))"
    unfolding ct py_join_def
    by (subst strings_from_strings) (auto simp: py_str_def comp_def)
  show ?thesis
    unfolding call_result [OF u h p s j res]
    using con ne pj by (simp add: py_get_def dict_get_def)
qed

lemma answering_response:
  "invocation_response (answering doc) fs_server (JStr ''read'') (JDict []) = Some (Inr doc)"
  by (simp add: invocation_response_def answering_def demo_world_def always_def ok_reply_def
      fs_server_def dict_get_def substitute_headers_def raise_for_status_def response_json_def loads_def)

text \<open>
  C1 (amended). For every invocation response that is an object whose \<^verbatim>\<open>result\<close> is an
  object whose \<^verbatim>\<open>content\<close> is an array, every \<^verbatim>\<open>text\<close> field of an object element
  being a string: \<^verbatim>\<open>call_mcp_tool\<close> returns the texts of the array's object elements (the
  \<^verbatim>\<open>text\<close> field, or the element's string form when it has none) joined by newlines, the
  elements that are not objects being left out; and when the array has no object element
  it returns the string form of the whole array.
\<close>

theorem call_mcp_tool_content_array:
  assumes inv: "invocation_response w server_config tname args = Some (Inr (JDict d))"
      and res: "map_of d ''result'' = Some (JDict rd)"
      and con: "map_of rd ''content'' = Some (JList cs)"
      and strs: "\<forall>e t. JDict e \<in> set cs \<and> map_of e ''text'' = Some t \<longrightarrow> (\<exists>s. t = JStr s)"
  shows "snd (call_mcp_tool w server_config tname args) =
           Inr (if list_ex is_object cs
                then join_strings [CHR 0x0A] (map element_text (filter is_object cs))
                else py_str (JList cs))"
  using assms by (rule call_content_array)

theorem call_mcp_tool_content_array_witness:
  "snd (call_mcp_tool (answering (JDict [(''result'', JDict [(''content'', JList [JDict [(''text'', JStr ''hi'')]])])]))
          fs_server (JStr ''read'') (JDict [])) = Inr ''hi''
   \<and> snd (call_mcp_tool
            (answering (JDict [(''result'', JDict [(''content'',
               JList [JDict [(''text'', JStr ''a'')], JDict [(''text'', JStr ''b'')]])])]))
            fs_server (JStr ''read'') (JDict [])) = Inr [CHR ''a'', CHR 0x0A, CHR ''b'']"
proof -
  let ?c1 = "[JDict [(''text'', JStr ''hi'')]]"
  let ?c2 = "[JDict [(''text'', JStr ''a'')], JDict [(''text'', JStr ''b'')]]"
  have t1: "\<forall>e t. JDict e \<in> set ?c1 \<and> map_of e ''text'' = Some t \<longrightarrow> (\<exists>s. t = JStr s)"
    and t2: "\<forall>e t. JDict e \<in> set ?c2 \<and> map_of e ''text'' = Some t \<longrightarrow> (\<exists>s. t = JStr s)"
    by auto
  have r1: "map_of [(''result'', JDict [(''content'', JList ?c1)])] ''result'' = Some (JDict [(''content'', JList ?c1)])"
    and r2: "map_of [(''result'', JDict [(''content'', JList ?c2)])] ''result'' = Some (JDict [(''content'', JList ?c2)])"
    by simp_all
  have c1: "map_of [(''content'', JList ?c1)] ''content'' = Some (JList ?c1)"
    and c2: "map_of [(''content'', JList ?c2)] ''content'' = Some (JList ?c2)"
    by simp_all
  have 1: "snd (call_mcp_tool (answering (JDict [(''result'', JDict [(''content'', JList ?c1)])]))
             fs_server (JStr ''read'') (JDict [])) = Inr ''hi''"
    using call_mcp_tool_content_array [OF answering_response r1 c1 t1]
    by (simp add: is_object_simps element_text_def py_str_def)
  have 2: "snd (call_mcp_tool (answering (JDict [(''result'', JDict [(''content'', JList ?c2)])]))
             fs_server (JStr ''read'') (JDict [])) = Inr [CHR ''a'', CHR 0x0A, CHR ''b'']"
    using call_mcp_tool_content_array [OF answering_response r2 c2 t2]
    by (simp add: is_object_simps element_text_def py_str_def)
  show ?thesis using 1 2 by simp
qed

text \<open>
  C1 as stated fails in two ways. An element whose text is empty gives the empty string,
  not the string form of the array, since the fallback looks at the list of texts, not at
  the joined text; and an element that is not an object is skipped, not written in its
  string form.
\<close>

theorem call_mcp_tool_stated_text_counterexample:
  "snd (call_mcp_tool (answering (JDict [(''result'', JDict [(''content'', JList [JDict [(''text'', JStr [])]])])]))
          fs_server (JStr ''read'') (JDict [])) = Inr []
   \<and> stated_result_text [JDict [(''text'', JStr [])]] =
        ''[{'' @ [CHR 0x27] @ ''text'' @ [CHR 0x27] @ '': '' @ [CHR 0x27, CHR 0x27] @ ''}]''
   \<and> snd (call_mcp_tool
            (answering (JDict [(''result'', JDict [(''content'', JList [JDict [(''text'', JStr ''a'')], JStr ''b''])])]))
            fs_server (JStr ''read'') (JDict [])) = Inr ''a''
   \<and> stated_result_text [JDict [(''text'', JStr ''a'')], JStr ''b''] = [CHR ''a'', CHR 0x0A, CHR ''b'']"
proof -
  let ?c1 = "[JDict [(''text'', JStr [])]]"
  let ?c2 = "[JDict [(''text'', JStr ''a'')], JStr ''b'']"
  have t1: "\<forall>e t. JDict e \<in> set ?c1 \<and> map_of e ''text'' = Some t \<longrightarrow> (\<exists>s. t = JStr s)"
    and t2: "\<forall>e t. JDict e \<in> set ?c2 \<and> map_of e ''text'' = Some t \<longrightarrow> (\<exists>s. t = JStr s)"
    by auto
  have r1: "map_of [(''result'', JDict [(''content'', JList ?c1)])] ''result'' = Some (JDict [(''content'', JList ?c1)])"
    and r2: "map_of [(''result'', JDict [(''content'', JList ?c2)])] ''result'' = Some (JDict [(''content'', JList ?c2)])"
    by simp_all
  have c1: "map_of [(''content'', JList ?c1)] ''content'' = Some (JList ?c1)"
    and c2: "map_of [(''content'', JList ?c2)] ''content'' = Some (JList ?c2)"
    by simp_all
  have 1: "snd (call_mcp_tool (answering (JDict [(''result'', JDict [(''content'', JList ?c1)])]))
          fs_server (JStr ''read'') (JDict [])) = Inr []"
    using call_content_array [OF answering_response r1 c1 t1]
    by (simp add: is_object_simps element_text_def py_str_def)
  have 2: "stated_result_text ?c1 =
        ''[{'' @ [CHR 0x27] @ ''text'' @ [CHR 0x27] @ '': '' @ [CHR 0x27, CHR 0x27] @ ''}]''"
    by (simp add: stated_result_text_def element_text_def py_str_def str_repr_def repr_char_def Let_def)
  have 3: "snd (call_mcp_tool (answering (JDict [(''result'', JDict [(''content'', JList ?c2)])]))
            fs_server (JStr ''read'') (JDict [])) = Inr ''a''"
    using call_content_array [OF answering_response r2 c2 t2]
    by (simp add: is_object_simps element_text_def py_str_def)
  have 4: "stated_result_text ?c2 = [CHR ''a'', CHR 0x0A, CHR ''b'']"
    by (simp add: stated_result_text_def element_text_def py_str_def Let_def)
  show ?thesis using 1 2 3 4 by simp
qed


subsection \<open>The branches of the response\<close>








lemma string_in_list: "list_ex (py_eq (JStr k)) xs \<longleftrightarrow> JStr k \<in> set xs"
  by (induction xs) auto





section \<open>The tool wrapper\<close>

lemma init_Inr:
  assumes "MCPClientTool_init server_config tool_definition = Inr self"
  obtains sn tn where "map_of server_config ''name'' = Some sn"
    and "map_of tool_definition ''name'' = Some tn"
    and "self = \<lparr>self_server_config = server_config, self_tool_definition = tool_definition,
                  self_name = py_format sn @ ''_'' @ py_format tn,
                  self_description = dict_get tool_definition ''description'' (JStr []),
                  self_parameters = dict_get tool_definition ''inputSchema'' (JDict [])\<rparr>"
  using assms
  by (auto simp: MCPClientTool_init_def dict_getitem_def split: option.splits sum.splits)

lemma run_no_messages:
  "run w self [] = ([], Inr (ToolResponse ''unknown'' (self_name self) ''No messages provided'' []))"
  by (simp add: run_def ret_def)

lemma run_no_tool_calls:
  assumes "messages \<noteq> []"
      and "tool_calls (last messages) = None \<or> tool_calls (last messages) = Some []"
  shows "run w self messages =
           ([], Inr (ToolResponse ''unknown'' (self_name self) ''No tool calls in message'' []))"
  using assms by (auto simp add: run_def ret_def Let_def)

text \<open>The four ways the arguments of the first tool call are read.\<close>

lemma run_decoded:
  assumes "messages \<noteq> []"
      and "tool_calls (last messages) = Some (tc # rest)"
      and "map_of (self_tool_definition self) ''name'' = Some tn"
      and "map_of (self_server_config self) ''name'' = Some sn"
      and "arguments tc = JStr s"
      and "json_loads w s = Inr v"
  shows "snd (run w self messages) =
           wrap_result (call_id tc) (self_name self) sn (snd (call_mcp_tool w (self_server_config self) tn v))"
  using assms
  by (simp add: run_def Let_def loads_def lift_def try_except_JSONDecodeError_def and_then_pair_Inr
      and_then_lift_Inr dict_getitem_Some snd_simps wrap_result_def split: sum.splits)

lemma run_not_decoded:
  assumes "messages \<noteq> []"
      and "tool_calls (last messages) = Some (tc # rest)"
      and "map_of (self_tool_definition self) ''name'' = Some tn"
      and "map_of (self_server_config self) ''name'' = Some sn"
      and "arguments tc = JStr s"
      and "json_loads w s = Inl (JSONDecodeError msg)"
  shows "snd (run w self messages) =
           wrap_result (call_id tc) (self_name self) sn
             (snd (call_mcp_tool w (self_server_config self) tn (JDict [])))"
  using assms
  by (simp add: run_def Let_def loads_def lift_def try_except_JSONDecodeError_def is_JSONDecodeError_def
      and_then_ret and_then_lift_Inr dict_getitem_Some snd_simps wrap_result_def split: sum.splits)

lemma run_decoder_raises:
  assumes "messages \<noteq> []"
      and "tool_calls (last messages) = Some (tc # rest)"
      and "arguments tc = JStr s"
      and "json_loads w s = Inl e"
      and "\<forall>msg. e \<noteq> JSONDecodeError msg"
  shows "run w self messages = ([], Inl e)"
proof -
  have "\<not> is_JSONDecodeError e"
    using assms(5) by (cases e) (simp_all add: is_JSONDecodeError_def)
  then show ?thesis
    using assms(1-4)
    by (simp add: run_def Let_def loads_def lift_def try_except_JSONDecodeError_def and_then_pair_Inl)
qed

lemma run_not_a_string:
  assumes "messages \<noteq> []"
      and "tool_calls (last messages) = Some (tc # rest)"
      and "map_of (self_tool_definition self) ''name'' = Some tn"
      and "map_of (self_server_config self) ''name'' = Some sn"
      and "\<forall>s. arguments tc \<noteq> JStr s"
  shows "snd (run w self messages) =
           wrap_result (call_id tc) (self_name self) sn
             (snd (call_mcp_tool w (self_server_config self) tn (arguments tc)))"
  using assms
  by (cases "arguments tc")
     (simp_all add: run_def Let_def and_then_ret and_then_lift_Inr dict_getitem_Some snd_simps
        wrap_result_def split: sum.splits)

text \<open>
  C5 (amended). For a tool built by \<^verbatim>\<open>MCPClientTool.__init__\<close> and every message list,
  \<^verbatim>\<open>run\<close> returns a diagnostic response, raising and logging nothing, when the list is empty
  and when the last message carries no tool call (\<^verbatim>\<open>None\<close> or an empty list). Otherwise it
  takes the first tool call of the last message and reads its arguments: a string is decoded
  as JSON, the empty dictionary takes its place when the decoder raises \<^verbatim>\<open>JSONDecodeError\<close>,
  and any other exception of the decoder is raised by \<^verbatim>\<open>run\<close> before a request is made;
  arguments that are not a string are taken as they are. It calls \<^verbatim>\<open>call_mcp_tool\<close> with
  the tool definition's own name, not the prefixed one, and wraps the string it gets in a
  response that carries the call's id, the prefixed name and the server's name as metadata;
  once the request can be made this response is returned and nothing is raised.
\<close>

theorem run_response:
  assumes "MCPClientTool_init server_config tool_definition = Inr self"
  shows "(messages = [] \<longrightarrow>
            run w self messages =
              ([], Inr (ToolResponse ''unknown'' (self_name self) ''No messages provided'' [])))
       \<and> (messages \<noteq> [] \<and> (tool_calls (last messages) = None \<or> tool_calls (last messages) = Some []) \<longrightarrow>
            run w self messages =
              ([], Inr (ToolResponse ''unknown'' (self_name self) ''No tool calls in message'' [])))
       \<and> (\<forall>tc rest. messages \<noteq> [] \<and> tool_calls (last messages) = Some (tc # rest) \<longrightarrow>
            (\<exists>sn tn.
               map_of server_config ''name'' = Some sn \<and> map_of tool_definition ''name'' = Some tn \<and>
               self_name self = py_format sn @ ''_'' @ py_format tn \<and>
               (\<forall>s v. arguments tc = JStr s \<and> json_loads w s = Inr v \<longrightarrow>
                  snd (run w self messages) =
                    wrap_result (call_id tc) (self_name self) sn (snd (call_mcp_tool w server_config tn v))) \<and>
               (\<forall>s msg. arguments tc = JStr s \<and> json_loads w s = Inl (JSONDecodeError msg) \<longrightarrow>
                  snd (run w self messages) =
                    wrap_result (call_id tc) (self_name self) sn
                      (snd (call_mcp_tool w server_config tn (JDict [])))) \<and>
               (\<forall>s e. arguments tc = JStr s \<and> json_loads w s = Inl e \<and> (\<forall>msg. e \<noteq> JSONDecodeError msg) \<longrightarrow>
                  run w self messages = ([], Inl e)) \<and>
               ((\<forall>s. arguments tc \<noteq> JStr s) \<longrightarrow>
                  snd (run w self messages) =
                    wrap_result (call_id tc) (self_name self) sn
                      (snd (call_mcp_tool w server_config tn (arguments tc)))) \<and>
               (\<forall>args. invocation_response w server_config tn args \<noteq> None \<longrightarrow>
                  (\<exists>result.
                     snd (call_mcp_tool w server_config tn args) = Inr result \<and>
                     wrap_result (call_id tc) (self_name self) sn (snd (call_mcp_tool w server_config tn args)) =
                       Inr (ToolResponse (call_id tc) (self_name self) result [(''mcp_server'', sn)])))))"
proof (intro conjI impI allI)
  assume "messages = []"
  then show "run w self messages =
      ([], Inr (ToolResponse ''unknown'' (self_name self) ''No messages provided'' []))"
    by (simp add: run_no_messages)
next
  assume "messages \<noteq> [] \<and> (tool_calls (last messages) = None \<or> tool_calls (last messages) = Some [])"
  then show "run w self messages =
      ([], Inr (ToolResponse ''unknown'' (self_name self) ''No tool calls in message'' []))"
    using run_no_tool_calls by blast
next
  fix tc rest
  assume a: "messages \<noteq> [] \<and> tool_calls (last messages) = Some (tc # rest)"
  then have m: "messages \<noteq> []" and l: "tool_calls (last messages) = Some (tc # rest)" by simp_all
  from assms obtain sn tn where sn: "map_of server_config ''name'' = Some sn"
    and tn: "map_of tool_definition ''name'' = Some tn"
    and self: "self = \<lparr>self_server_config = server_config, self_tool_definition = tool_definition,
                  self_name = py_format sn @ ''_'' @ py_format tn,
                  self_description = dict_get tool_definition ''description'' (JStr []),
                  self_parameters = dict_get tool_definition ''inputSchema'' (JDict [])\<rparr>"
    by (rule init_Inr)
  have sc: "self_server_config self = server_config" and td: "self_tool_definition self = tool_definition"
    and nm: "self_name self = py_format sn @ ''_'' @ py_format tn"
    using self by simp_all
  have tn': "map_of (self_tool_definition self) ''name'' = Some tn" using tn td by simp
  have sn': "map_of (self_server_config self) ''name'' = Some sn" using sn sc by simp
  have 1: "\<forall>s v. arguments tc = JStr s \<and> json_loads w s = Inr v \<longrightarrow>
                  snd (run w self messages) =
                    wrap_result (call_id tc) (self_name self) sn (snd (call_mcp_tool w server_config tn v))"
    using run_decoded [OF m l tn' sn'] sc by simp
  have 2: "\<forall>s msg. arguments tc = JStr s \<and> json_loads w s = Inl (JSONDecodeError msg) \<longrightarrow>
                  snd (run w self messages) =
                    wrap_result (call_id tc) (self_name self) sn
                      (snd (call_mcp_tool w server_config tn (JDict [])))"
    using run_not_decoded [OF m l tn' sn'] sc by simp
  have 3: "\<forall>s e. arguments tc = JStr s \<and> json_loads w s = Inl e \<and> (\<forall>msg. e \<noteq> JSONDecodeError msg) \<longrightarrow>
                  run w self messages = ([], Inl e)"
    using run_decoder_raises [OF m l] by blast
  have 4: "(\<forall>s. arguments tc \<noteq> JStr s) \<longrightarrow>
                  snd (run w self messages) =
                    wrap_result (call_id tc) (self_name self) sn
                      (snd (call_mcp_tool w server_config tn (arguments tc)))"
    using run_not_a_string [OF m l tn' sn'] sc by simp
  have 5: "\<forall>args. invocation_response w server_config tn args \<noteq> None \<longrightarrow>
                  (\<exists>result.
                     snd (call_mcp_tool w server_config tn args) = Inr result \<and>
                     wrap_result (call_id tc) (self_name self) sn (snd (call_mcp_tool w server_config tn args)) =
                       Inr (ToolResponse (call_id tc) (self_name self) result [(''mcp_server'', sn)]))"
  proof (intro allI impI)
    fix args
    assume "invocation_response w server_config tn args \<noteq> None"
    then obtain result where "snd (call_mcp_tool w server_config tn args) = Inr result"
      using invocation_response_total by blast
    then show "\<exists>result.
                     snd (call_mcp_tool w server_config tn args) = Inr result \<and>
                     wrap_result (call_id tc) (self_name self) sn (snd (call_mcp_tool w server_config tn args)) =
                       Inr (ToolResponse (call_id tc) (self_name self) result [(''mcp_server'', sn)])"
      by (simp add: wrap_result_def)
  qed
  show "\<exists>sn tn.
               map_of server_config ''name'' = Some sn \<and> map_of tool_definition ''name'' = Some tn \<and>
               self_name self = py_format sn @ ''_'' @ py_format tn \<and>
               (\<forall>s v. arguments tc = JStr s \<and> json_loads w s = Inr v \<longrightarrow>
                  snd (run w self messages) =
                    wrap_result (call_id tc) (self_name self) sn (snd (call_mcp_tool w server_config tn v))) \<and>
               (\<forall>s msg. arguments tc = JStr s \<and> json_loads w s = Inl (JSONDecodeError msg) \<longrightarrow>
                  snd (run w self messages) =
                    wrap_result (call_id tc) (self_name self) sn
                      (snd (call_mcp_tool w server_config tn (JDict [])))) \<and>
               (\<forall>s e. arguments tc = JStr s \<and> json_loads w s = Inl e \<and> (\<forall>msg. e \<noteq> JSONDecodeError msg) \<longrightarrow>
                  run w self messages = ([], Inl e)) \<and>
               ((\<forall>s. arguments tc \<noteq> JStr s) \<longrightarrow>
                  snd (run w self messages) =
                    wrap_result (call_id tc) (self_name self) sn
                      (snd (call_mcp_tool w server_config tn (arguments tc)))) \<and>
               (\<forall>args. invocation_response w server_config tn args \<noteq> None \<longrightarrow>
                  (\<exists>result.
                     snd (call_mcp_tool w server_config tn args) = Inr result \<and>
                     wrap_result (call_id tc) (self_name self) sn (snd (call_mcp_tool w server_config tn args)) =
                       Inr (ToolResponse (call_id tc) (self_name self) result [(''mcp_server'', sn)])))"
    apply (rule exI [of _ sn])
    apply (rule exI [of _ tn])
    using sn tn nm 1 2 3 4 5 by blast
qed

lemma read_tool_init: "MCPClientTool_init fs_server [(''name'', JStr ''read'')] = Inr read_tool"
  by (simp add: MCPClientTool_init_def fs_server_def dict_getitem_def dict_get_def read_tool_def
      py_format_def py_str_def)

lemma hi_reply:
  "snd (call_mcp_tool (answering (JDict [(''result'', JDict [(''content'', JList [JDict [(''text'', JStr ''hi'')]])])]))
          fs_server (JStr ''read'') (JDict [])) = Inr ''hi''"
proof -
  let ?c = "[JDict [(''text'', JStr ''hi'')]]"
  have t: "\<forall>e t. JDict e \<in> set ?c \<and> map_of e ''text'' = Some t \<longrightarrow> (\<exists>s. t = JStr s)" by auto
  have r: "map_of [(''result'', JDict [(''content'', JList ?c)])] ''result'' = Some (JDict [(''content'', JList ?c)])"
    by simp
  have c: "map_of [(''content'', JList ?c)] ''content'' = Some (JList ?c)" by simp
  show ?thesis
    using call_content_array [OF answering_response r c t]
    by (simp add: is_object_simps element_text_def py_str_def)
qed

theorem run_response_witness:
  "run (demo_world [] [] unreachable) read_tool [] =
     ([], Inr (ToolResponse ''unknown'' ''fs_read'' ''No messages provided'' []))
   \<and> run (demo_world [] [] unreachable) read_tool [\<lparr>tool_calls = Some []\<rparr>, \<lparr>tool_calls = None\<rparr>] =
     ([], Inr (ToolResponse ''unknown'' ''fs_read'' ''No tool calls in message'' []))
   \<and> snd (run (answering (JDict [(''result'', JDict [(''content'', JList [JDict [(''text'', JStr ''hi'')]])])]))
            read_tool
            [\<lparr>tool_calls = Some [\<lparr>call_id = ''c1'', tool_name = ''fs_read'', arguments = JStr ''{oops''\<rparr>]\<rparr>]) =
       Inr (ToolResponse ''c1'' ''fs_read'' ''hi'' [(''mcp_server'', JStr ''fs'')])
   \<and> snd (run (answering (JDict [(''result'', JDict [(''content'', JList [JDict [(''text'', JStr ''hi'')]])])]))
            read_tool
            [\<lparr>tool_calls = Some [\<lparr>call_id = ''c2'', tool_name = ''fs_read'', arguments = JDict []\<rparr>]\<rparr>]) =
       Inr (ToolResponse ''c2'' ''fs_read'' ''hi'' [(''mcp_server'', JStr ''fs'')])
   \<and> run (failing_on ''[[[['' (RecursionError ''maximum recursion depth exceeded'') (demo_world [] [] unreachable))
        read_tool
        [\<lparr>tool_calls = Some [\<lparr>call_id = ''c3'', tool_name = ''fs_read'', arguments = JStr ''[[[[''\<rparr>]\<rparr>] =
       ([], Inl (RecursionError ''maximum recursion depth exceeded''))"
proof -
  let ?w = "answering (JDict [(''result'', JDict [(''content'', JList [JDict [(''text'', JStr ''hi'')]])])])"
  let ?f = "failing_on ''[[[['' (RecursionError ''maximum recursion depth exceeded'') (demo_world [] [] unreachable)"
  let ?t1 = "\<lparr>call_id = ''c1'', tool_name = ''fs_read'', arguments = JStr ''{oops''\<rparr>"
  let ?t2 = "\<lparr>call_id = ''c2'', tool_name = ''fs_read'', arguments = JDict []\<rparr>"
  let ?t3 = "\<lparr>call_id = ''c3'', tool_name = ''fs_read'', arguments = JStr ''[[[[''\<rparr>"
  have nm: "self_name read_tool = ''fs_read''" by (simp add: read_tool_def)
  have names: "map_of fs_server ''name'' = Some sn \<longleftrightarrow> sn = JStr ''fs''"
    "map_of [(''name'', JStr ''read'')] ''name'' = Some tn \<longleftrightarrow> tn = JStr ''read''" for sn tn
    by (auto simp: fs_server_def)
  have 1: "run (demo_world [] [] unreachable) read_tool [] =
     ([], Inr (ToolResponse ''unknown'' ''fs_read'' ''No messages provided'' []))"
    using run_response [OF read_tool_init, of "[]" "demo_world [] [] unreachable"] nm by simp
  have 2: "run (demo_world [] [] unreachable) read_tool [\<lparr>tool_calls = Some []\<rparr>, \<lparr>tool_calls = None\<rparr>] =
     ([], Inr (ToolResponse ''unknown'' ''fs_read'' ''No tool calls in message'' []))"
    using run_response [OF read_tool_init, of "[\<lparr>tool_calls = Some []\<rparr>, \<lparr>tool_calls = None\<rparr>]"
        "demo_world [] [] unreachable"] nm by simp
  have d1: "arguments ?t1 = JStr ''{oops'' \<and>
            json_loads ?w ''{oops'' = Inl (JSONDecodeError ''Expecting value: line 1 column 1 (char 0)'')"
    by (simp add: answering_def demo_world_def)
  have "snd (run ?w read_tool [\<lparr>tool_calls = Some [?t1]\<rparr>]) =
          wrap_result (call_id ?t1) (self_name read_tool) (JStr ''fs'')
            (snd (call_mcp_tool ?w fs_server (JStr ''read'') (JDict [])))"
    using run_response [OF read_tool_init, of "[\<lparr>tool_calls = Some [?t1]\<rparr>]" ?w] d1
    by (auto simp: names)
  then have 3: "snd (run ?w read_tool [\<lparr>tool_calls = Some [?t1]\<rparr>]) =
       Inr (ToolResponse ''c1'' ''fs_read'' ''hi'' [(''mcp_server'', JStr ''fs'')])"
    by (simp add: hi_reply wrap_result_def nm)
  have "snd (run ?w read_tool [\<lparr>tool_calls = Some [?t2]\<rparr>]) =
          wrap_result (call_id ?t2) (self_name read_tool) (JStr ''fs'')
            (snd (call_mcp_tool ?w fs_server (JStr ''read'') (arguments ?t2)))"
    using run_response [OF read_tool_init, of "[\<lparr>tool_calls = Some [?t2]\<rparr>]" ?w]
    by (auto simp: names)
  then have 4: "snd (run ?w read_tool [\<lparr>tool_calls = Some [?t2]\<rparr>]) =
       Inr (ToolResponse ''c2'' ''fs_read'' ''hi'' [(''mcp_server'', JStr ''fs'')])"
    by (simp add: hi_reply wrap_result_def nm)
  have d3: "arguments ?t3 = JStr ''[[[['' \<and>
            json_loads ?f ''[[[['' = Inl (RecursionError ''maximum recursion depth exceeded'') \<and>
            (\<forall>msg. RecursionError ''maximum recursion depth exceeded'' \<noteq> JSONDecodeError msg)"
    by (simp add: failing_on_def)
  have 5: "run ?f read_tool [\<lparr>tool_calls = Some [?t3]\<rparr>] =
             ([], Inl (RecursionError ''maximum recursion depth exceeded''))"
    using run_response [OF read_tool_init, of "[\<lparr>tool_calls = Some [?t3]\<rparr>]" ?f] d3
    by (auto simp: names)
  show ?thesis using 1 2 3 4 5 by simp
qed

text \<open>
  C5 as stated fails: the arguments \<open>oversized_literal\<close> do not decode, the decoder raises
  \<^verbatim>\<open>ValueError\<close>, and \<^verbatim>\<open>run\<close>, which catches \<^verbatim>\<open>JSONDecodeError\<close> only, raises that exception
  where the claim has it go on with an empty argument map and return the server's answer.
\<close>

theorem run_decoder_error_counterexample:
  "run (failing_on oversized_literal digit_limit_error
          (answering (JDict [(''result'', JDict [(''content'', JList [JDict [(''text'', JStr ''hi'')]])])])))
     read_tool
     [\<lparr>tool_calls = Some [\<lparr>call_id = ''c1'', tool_name = ''fs_read'', arguments = JStr oversized_literal\<rparr>]\<rparr>] =
     ([], Inl digit_limit_error)
   \<and> snd (run (failing_on oversized_literal digit_limit_error
                 (answering (JDict [(''result'', JDict [(''content'', JList [JDict [(''text'', JStr ''hi'')]])])])))
            read_tool
            [\<lparr>tool_calls = Some [\<lparr>call_id = ''c1'', tool_name = ''fs_read'', arguments = JStr oversized_literal\<rparr>]\<rparr>]) \<noteq>
       Inr (ToolResponse ''c1'' ''fs_read'' ''hi'' [(''mcp_server'', JStr ''fs'')])"
proof -
  let ?w = "failing_on oversized_literal digit_limit_error
              (answering (JDict [(''result'', JDict [(''content'', JList [JDict [(''text'', JStr ''hi'')]])])]))"
  let ?tc = "\<lparr>call_id = ''c1'', tool_name = ''fs_read'', arguments = JStr oversized_literal\<rparr>"
  have "run ?w read_tool [\<lparr>tool_calls = Some [?tc]\<rparr>] = ([], Inl digit_limit_error)"
  proof (rule run_decoder_raises)
    show "[\<lparr>tool_calls = Some [?tc]\<rparr>] \<noteq> []" by simp
    show "tool_calls (last [\<lparr>tool_calls = Some [?tc]\<rparr>]) = Some (?tc # [])" by simp
    show "arguments ?tc = JStr oversized_literal" by simp
    show "json_loads ?w oversized_literal = Inl digit_limit_error" by (simp add: failing_on_def)
    show "\<forall>msg. digit_limit_error \<noteq> JSONDecodeError msg" by (simp add: digit_limit_error_def)
  qed
  then show ?thesis by simp
qed


section \<open>The registry\<close>

lemma init_wrapper:
  assumes "map_of server_config ''name'' = Some sn" and "map_of tool_definition ''name'' = Some tn"
  shows "MCPClientTool_init server_config tool_definition = Inr (wrapper server_config tool_definition)"
  using assms by (simp add: MCPClientTool_init_def dict_getitem_def wrapper_def dict_get_def)

lemma init_nameless:
  assumes "map_of server_config ''name'' = Some sn" and "map_of tool_definition ''name'' = None"
  shows "MCPClientTool_init server_config tool_definition = Inl (KeyError ''name'')"
  using assms by (simp add: MCPClientTool_init_def dict_getitem_def)

lemma register_tool_skip:
  assumes "\<not> whitelisted ws td"
  shows "register_tool server_config (JList ws) (JDict td) tools =
           ([(DEBUG, ''Skipping tool '' @ py_format (dict_get td ''name'' (JStr [])) @ '' (not in whitelist)'')],
            Inr tools)"
  using assms
  by (simp add: register_tool_def Let_def whitelisted_def py_truthy_def py_contains_def
      outcome_simps ret_def)

lemma register_tool_keep:
  assumes "whitelisted ws td"
  shows "snd (register_tool server_config (JList ws) (JDict td) tools) =
           (case MCPClientTool_init server_config td of Inl e \<Rightarrow> Inl e | Inr t \<Rightarrow> Inr (tools @ [t]))"
  using assms
  by (auto simp add: register_tool_def Let_def whitelisted_def py_truthy_def py_contains_def
      snd_simps outcome_simps ret_def split: sum.splits)

lemma snd_for_each_Cons:
  "snd (for_each f (x # xs) s) =
     (case snd (f x s) of Inl e \<Rightarrow> Inl e | Inr s' \<Rightarrow> snd (for_each f xs s'))"
  by (simp add: snd_and_then)

lemma register_tools:
  assumes "map_of server_config ''name'' = Some sn"
  shows "snd (for_each (register_tool server_config (JList ws)) (map JDict tds) tools) =
           (if \<exists>td\<in>set tds. whitelisted ws td \<and> map_of td ''name'' = None
            then Inl (KeyError ''name'')
            else Inr (tools @ map (wrapper server_config) (filter (whitelisted ws) tds)))"
proof (induction tds arbitrary: tools)
  case Nil
  show ?case by (simp add: ret_def)
next
  case (Cons td tds)
  show ?case
  proof (cases "whitelisted ws td")
    case False
    then have "snd (register_tool server_config (JList ws) (JDict td) tools) = Inr tools"
      by (simp add: register_tool_skip)
    then show ?thesis using False Cons.IH [of tools] by (simp add: snd_for_each_Cons del: for_each.simps)
  next
    case True
    show ?thesis
    proof (cases "map_of td ''name''")
      case None
      then have "snd (register_tool server_config (JList ws) (JDict td) tools) = Inl (KeyError ''name'')"
        using True assms by (simp add: register_tool_keep init_nameless)
      then show ?thesis using True None by (auto simp add: snd_for_each_Cons simp del: for_each.simps)
    next
      case (Some tn)
      then have "snd (register_tool server_config (JList ws) (JDict td) tools) =
                   Inr (tools @ [wrapper server_config td])"
        using True assms by (simp add: register_tool_keep init_wrapper)
      then show ?thesis using True Some Cons.IH [of "tools @ [wrapper server_config td]"]
        by (simp add: snd_for_each_Cons del: for_each.simps)
    qed
  qed
qed

lemma process_server_snd:
  assumes "snd (discover_mcp_tools w cfg) = Inr (JList (map JDict tds))"
      and "dict_get cfg ''tools'' (JList []) = JList ws"
  shows "snd (process_server w (JDict cfg) tools) =
           (if \<exists>td\<in>set tds. whitelisted ws td \<and> map_of td ''name'' = None
            then Inl (KeyError ''name'')
            else Inr (tools @ map (wrapper cfg) (filter (whitelisted ws) tds)))"
proof -
  from assms(1) have "map_of cfg ''name'' \<noteq> None" by (rule discover_needs_name)
  then obtain sn where sn: "map_of cfg ''name'' = Some sn" by blast
  have "snd (process_server w (JDict cfg) tools) =
          snd (for_each (register_tool cfg (JList ws)) (map JDict tds) tools)"
    using assms by (simp add: process_server_def Let_def snd_simps py_iter_def)
  then show ?thesis using register_tools [OF sn] by simp
qed

lemma process_servers:
  assumes "\<forall>cfg\<in>set cfgs. snd (discover_mcp_tools w cfg) = Inr (JList (map JDict (found cfg)))"
      and "\<forall>cfg\<in>set cfgs. dict_get cfg ''tools'' (JList []) = JList (allowed cfg)"
  shows "snd (for_each (process_server w) (map JDict cfgs) tools) =
           (if \<exists>cfg\<in>set cfgs. \<exists>td\<in>set (found cfg). whitelisted (allowed cfg) td \<and> map_of td ''name'' = None
            then Inl (KeyError ''name'')
            else Inr (tools @ concat (map (\<lambda>cfg. map (wrapper cfg) (filter (whitelisted (allowed cfg)) (found cfg))) cfgs)))"
  using assms
proof (induction cfgs arbitrary: tools)
  case Nil
  show ?case by (simp add: ret_def)
next
  case (Cons cfg cfgs)
  have step: "snd (process_server w (JDict cfg) tools) =
           (if \<exists>td\<in>set (found cfg). whitelisted (allowed cfg) td \<and> map_of td ''name'' = None
            then Inl (KeyError ''name'')
            else Inr (tools @ map (wrapper cfg) (filter (whitelisted (allowed cfg)) (found cfg))))"
    using Cons.prems by (intro process_server_snd) simp_all
  have ih: "\<And>tools. snd (for_each (process_server w) (map JDict cfgs) tools) =
           (if \<exists>cfg\<in>set cfgs. \<exists>td\<in>set (found cfg). whitelisted (allowed cfg) td \<and> map_of td ''name'' = None
            then Inl (KeyError ''name'')
            else Inr (tools @ concat (map (\<lambda>cfg. map (wrapper cfg) (filter (whitelisted (allowed cfg)) (found cfg))) cfgs)))"
    using Cons.IH Cons.prems by simp
  show ?case
    by (simp add: snd_for_each_Cons step ih del: for_each.simps)
qed

lemma create_snd:
  assumes "snd (load_mcp_config w) = Inr (JList (map JDict cfgs))"
      and "\<forall>cfg\<in>set cfgs. snd (discover_mcp_tools w cfg) = Inr (JList (map JDict (found cfg)))"
      and "\<forall>cfg\<in>set cfgs. dict_get cfg ''tools'' (JList []) = JList (allowed cfg)"
  shows "snd (create_mcp_client_tools w) =
           (if \<exists>cfg\<in>set cfgs. \<exists>td\<in>set (found cfg). whitelisted (allowed cfg) td \<and> map_of td ''name'' = None
            then Inl (KeyError ''name'')
            else Inr (concat (map (\<lambda>cfg. map (wrapper cfg) (filter (whitelisted (allowed cfg)) (found cfg))) cfgs)))"
  using assms(1) process_servers [OF assms(2,3), of "[]"]
  by (simp add: create_mcp_client_tools_def snd_simps py_iter_def split: sum.splits)

lemma whitelisted_string:
  assumes "map_of td ''name'' = Some (JStr b)"
  shows "whitelisted ws td \<longleftrightarrow> ws = [] \<or> JStr b \<in> set ws"
  using assms string_in_list [of b ws] by (simp add: whitelisted_def dict_get_def)

lemma whitelisted_nameless:
  assumes "map_of td ''name'' = None"
  shows "whitelisted ws td \<longleftrightarrow> ws = [] \<or> JStr [] \<in> set ws"
  using assms string_in_list [of "[]" ws] by (simp add: whitelisted_def dict_get_def)

lemma wrapper_name:
  assumes "map_of cfg ''name'' = Some sn" and "map_of td ''name'' = Some tn"
  shows "get_name (wrapper cfg td) = py_format sn @ ''_'' @ py_format tn"
  using assms by (simp add: get_name_def wrapper_def dict_get_def)

lemma create_named:
  assumes "snd (load_mcp_config w) = Inr (JList (map JDict cfgs))"
      and "\<forall>cfg\<in>set cfgs. snd (discover_mcp_tools w cfg) = Inr (JList (map JDict (found cfg)))"
      and "\<forall>cfg\<in>set cfgs. dict_get cfg ''tools'' (JList []) = JList (allowed cfg)"
      and "\<forall>cfg\<in>set cfgs. \<forall>td\<in>set (found cfg). whitelisted (allowed cfg) td \<longrightarrow> map_of td ''name'' \<noteq> None"
  shows "snd (create_mcp_client_tools w) =
           Inr (concat (map (\<lambda>cfg. map (wrapper cfg) (filter (whitelisted (allowed cfg)) (found cfg))) cfgs))"
proof -
  have "\<not> (\<exists>cfg\<in>set cfgs. \<exists>td\<in>set (found cfg). whitelisted (allowed cfg) td \<and> map_of td ''name'' = None)"
    using assms(4) by blast
  then show ?thesis
    unfolding create_snd [OF assms(1-3)] by (rule if_not_P)
qed

lemma create_nameless:
  assumes "snd (load_mcp_config w) = Inr (JList (map JDict cfgs))"
      and "\<forall>cfg\<in>set cfgs. snd (discover_mcp_tools w cfg) = Inr (JList (map JDict (found cfg)))"
      and "\<forall>cfg\<in>set cfgs. dict_get cfg ''tools'' (JList []) = JList (allowed cfg)"
      and "\<exists>cfg\<in>set cfgs. \<exists>td\<in>set (found cfg). whitelisted (allowed cfg) td \<and> map_of td ''name'' = None"
  shows "snd (create_mcp_client_tools w) = Inl (KeyError ''name'')"
  unfolding create_snd [OF assms(1-3)] using assms(4) by (rule if_P)

subsection \<open>The example registry\<close>

lemma serving_load:
  "snd (load_mcp_config (serving servers tools)) = Inr (JList (map JDict servers))"
proof -
  have "substitute_env_vars (serving servers tools) ''servers'' = ''servers''"
    by (rule substitute_no_dollar) simp
  then show ?thesis
    by (simp add: load_mcp_config_def os_getenv_def loads_def serving_def demo_world_def lift_def
        py_len_def outcome_simps ret_def logger_def)
qed

lemma serving_discover:
  assumes "map_of cfg ''url'' = Some url"
      and "map_of cfg ''name'' = Some sn"
      and "map_of cfg ''headers'' = None"
  shows "snd (discover_mcp_tools (serving servers (map JDict tds)) cfg) = Inr (JList (map JDict tds))"
proof -
  let ?w = "serving servers (map JDict tds)"
  let ?r = "\<lparr>status_code = 200, body = ''reply''\<rparr>"
  have h: "substitute_headers ?w (dict_get cfg ''headers'' (JDict [])) = Inr []"
    using assms(3) by (simp add: dict_get_def substitute_headers_def)
  have p: "httpx_post ?w url tools_list_request [] 30 = Inr ?r"
    by (simp add: serving_def demo_world_def always_def ok_reply_def)
  have s: "200 \<le> status_code ?r \<and> status_code ?r \<le> 299" by simp
  have j: "json_loads ?w (body ?r) =
             Inr (JDict [(''result'', JDict [(''tools'', JList (map JDict tds))])])"
    by (simp add: serving_def demo_world_def)
  have "discover_mcp_tools ?w cfg =
          ([(INFO, ''Discovered '' @ string_of_nat (length (map JDict tds)) @ '' tools from '' @ py_format sn)],
           Inr (JList (map JDict tds)))"
    by (rule discover_tools [OF assms(1,2) h p s j, where rd = "[(''tools'', JList (map JDict tds))]"
          and t = "JList (map JDict tds)"])
       (simp_all add: py_len_def)
  then show ?thesis by simp
qed

text \<open>
  C4 (amended). When the configuration is an array of server objects, every discovery
  returns an array of tool objects, every whitelist is an array or absent, and every
  discovered tool that passes the filter has a name: \<^verbatim>\<open>create_mcp_client_tools\<close> registers,
  server after server in the order of the configuration and tool after tool in the order of
  the discovery, exactly the discovered tools that pass the filter, which are all of them
  when the whitelist is empty or absent and those whose name is in the whitelist otherwise;
  each of them yields one wrapper, built by \<^verbatim>\<open>MCPClientTool.__init__\<close>, whose name is the
  server's name, an underscore and the tool's name.
\<close>

theorem create_mcp_client_tools_registers_whitelisted:
  assumes "snd (load_mcp_config w) = Inr (JList (map JDict cfgs))"
      and "\<forall>cfg\<in>set cfgs. snd (discover_mcp_tools w cfg) = Inr (JList (map JDict (found cfg)))"
      and "\<forall>cfg\<in>set cfgs. dict_get cfg ''tools'' (JList []) = JList (allowed cfg)"
      and "\<forall>cfg\<in>set cfgs. \<forall>td\<in>set (found cfg). whitelisted (allowed cfg) td \<longrightarrow> map_of td ''name'' \<noteq> None"
  shows "snd (create_mcp_client_tools w) =
           Inr (concat (map (\<lambda>cfg. map (wrapper cfg) (filter (whitelisted (allowed cfg)) (found cfg))) cfgs))
       \<and> (\<forall>ws td. ws = [] \<longrightarrow> whitelisted ws td)
       \<and> (\<forall>ws td b. map_of td ''name'' = Some (JStr b) \<longrightarrow>
            (whitelisted ws td \<longleftrightarrow> ws = [] \<or> JStr b \<in> set ws))
       \<and> (\<forall>cfg td sn tn. map_of cfg ''name'' = Some sn \<and> map_of td ''name'' = Some tn \<longrightarrow>
            MCPClientTool_init cfg td = Inr (wrapper cfg td) \<and>
            get_name (wrapper cfg td) = py_format sn @ ''_'' @ py_format tn)
       \<and> (\<forall>cfg td a b. map_of cfg ''name'' = Some (JStr a) \<and> map_of td ''name'' = Some (JStr b) \<longrightarrow>
            get_name (wrapper cfg td) = a @ ''_'' @ b)"
proof (intro conjI allI impI)
  show "snd (create_mcp_client_tools w) =
           Inr (concat (map (\<lambda>cfg. map (wrapper cfg) (filter (whitelisted (allowed cfg)) (found cfg))) cfgs))"
    using assms by (rule create_named)
next
  fix ws :: "json list" and td :: pydict
  assume "ws = []"
  then show "whitelisted ws td" by (simp add: whitelisted_def)
next
  fix ws :: "json list" and td :: pydict and b :: string
  assume "map_of td ''name'' = Some (JStr b)"
  then show "whitelisted ws td \<longleftrightarrow> ws = [] \<or> JStr b \<in> set ws"
    by (rule whitelisted_string)
next
  fix cfg td :: pydict and sn tn :: json
  assume a: "map_of cfg ''name'' = Some sn \<and> map_of td ''name'' = Some tn"
  then have sn: "map_of cfg ''name'' = Some sn" and tn: "map_of td ''name'' = Some tn" by simp_all
  show "MCPClientTool_init cfg td = Inr (wrapper cfg td)"
    by (rule init_wrapper [OF sn tn])
  show "get_name (wrapper cfg td) = py_format sn @ ''_'' @ py_format tn"
    by (rule wrapper_name [OF sn tn])
next
  fix cfg td :: pydict and a b :: string
  assume a: "map_of cfg ''name'' = Some (JStr a) \<and> map_of td ''name'' = Some (JStr b)"
  then have sn: "map_of cfg ''name'' = Some (JStr a)" and tn: "map_of td ''name'' = Some (JStr b)"
    by simp_all
  show "get_name (wrapper cfg td) = a @ ''_'' @ b"
    using wrapper_name [OF sn tn] by (simp add: py_format_def py_str_def)
qed

lemma fs_server_fields:
  "map_of fs_server ''url'' = Some (JStr ''http://localhost:8080/mcp'')"
  "map_of fs_server ''name'' = Some (JStr ''fs'')"
  "map_of fs_server ''headers'' = None"
  "map_of fs_read_only ''url'' = Some (JStr ''http://localhost:8080/mcp'')"
  "map_of fs_read_only ''name'' = Some (JStr ''fs'')"
  "map_of fs_read_only ''headers'' = None"
  by (simp_all add: fs_server_def fs_read_only_def)

theorem create_mcp_client_tools_registers_whitelisted_witness:
  "snd (create_mcp_client_tools
          (serving [fs_read_only] [JDict [(''name'', JStr ''read'')], JDict [(''name'', JStr ''write'')]])) =
     Inr [wrapper fs_read_only [(''name'', JStr ''read'')]]
   \<and> get_name (wrapper fs_read_only [(''name'', JStr ''read'')]) = ''fs_read''
   \<and> snd (create_mcp_client_tools
          (serving [fs_server] [JDict [(''name'', JStr ''read'')], JDict [(''name'', JStr ''write'')]])) =
     Inr [wrapper fs_server [(''name'', JStr ''read'')], wrapper fs_server [(''name'', JStr ''write'')]]
   \<and> get_name (wrapper fs_server [(''name'', JStr ''write'')]) = ''fs_write''"
proof -
  let ?tds = "[[(''name'', JStr ''read'')], [(''name'', JStr ''write'')]]"
  let ?a = "serving [fs_read_only] (map JDict ?tds)"
  let ?b = "serving [fs_server] (map JDict ?tds)"
  have la: "snd (load_mcp_config ?a) = Inr (JList (map JDict [fs_read_only]))"
    by (rule serving_load)
  have lb: "snd (load_mcp_config ?b) = Inr (JList (map JDict [fs_server]))"
    by (rule serving_load)
  have da: "\<forall>cfg\<in>set [fs_read_only]. snd (discover_mcp_tools ?a cfg) = Inr (JList (map JDict ?tds))"
    using serving_discover [OF fs_server_fields(4,5,6), of "[fs_read_only]" ?tds] by simp
  have db: "\<forall>cfg\<in>set [fs_server]. snd (discover_mcp_tools ?b cfg) = Inr (JList (map JDict ?tds))"
    using serving_discover [OF fs_server_fields(1,2,3), of "[fs_server]" ?tds] by simp
  have wa: "\<forall>cfg\<in>set [fs_read_only]. dict_get cfg ''tools'' (JList []) = JList [JStr ''read'']"
    by (simp add: fs_read_only_def fs_server_def dict_get_def)
  have wb: "\<forall>cfg\<in>set [fs_server]. dict_get cfg ''tools'' (JList []) = JList []"
    by (simp add: fs_server_def dict_get_def)
  have na: "\<forall>cfg\<in>set [fs_read_only]. \<forall>td\<in>set ?tds. whitelisted [JStr ''read''] td \<longrightarrow> map_of td ''name'' \<noteq> None"
    by simp
  have nb: "\<forall>cfg\<in>set [fs_server]. \<forall>td\<in>set ?tds. whitelisted [] td \<longrightarrow> map_of td ''name'' \<noteq> None"
    by simp
  note A = create_mcp_client_tools_registers_whitelisted
             [where w = ?a and cfgs = "[fs_read_only]" and found = "\<lambda>_. ?tds" and allowed = "\<lambda>_. [JStr ''read'']",
              OF la da wa na]
  note B = create_mcp_client_tools_registers_whitelisted
             [where w = ?b and cfgs = "[fs_server]" and found = "\<lambda>_. ?tds" and allowed = "\<lambda>_. []",
              OF lb db wb nb]
  have 1: "snd (create_mcp_client_tools ?a) = Inr [wrapper fs_read_only [(''name'', JStr ''read'')]]"
    using A by (simp add: whitelisted_def dict_get_def)
  have 2: "get_name (wrapper fs_read_only [(''name'', JStr ''read'')]) = ''fs_read''"
    using A fs_server_fields(5) by (simp add: py_format_def py_str_def)
  have 3: "snd (create_mcp_client_tools ?b) =
             Inr [wrapper fs_server [(''name'', JStr ''read'')], wrapper fs_server [(''name'', JStr ''write'')]]"
    using B by (simp add: whitelisted_def)
  have 4: "get_name (wrapper fs_server [(''name'', JStr ''write'')]) = ''fs_write''"
    using B fs_server_fields(2) by (simp add: py_format_def py_str_def)
  show ?thesis using 1 2 3 4 by simp
qed

text \<open>
  C4 as stated fails: with no whitelist, a discovered tool that has no name is not
  registered; \<^verbatim>\<open>MCPClientTool.__init__\<close> raises \<^verbatim>\<open>KeyError\<close> and no registry is returned.
\<close>

theorem create_mcp_client_tools_unnamed_tool_counterexample:
  "snd (create_mcp_client_tools
          (serving [fs_server] [JDict [(''name'', JStr ''read'')], JDict [(''description'', JStr ''lists files'')]])) =
     Inl (KeyError ''name'')"
proof -
  let ?tds = "[[(''name'', JStr ''read'')], [(''description'', JStr ''lists files'')]]"
  let ?w = "serving [fs_server] (map JDict ?tds)"
  have l: "snd (load_mcp_config ?w) = Inr (JList (map JDict [fs_server]))"
    by (rule serving_load)
  have d: "\<forall>cfg\<in>set [fs_server]. snd (discover_mcp_tools ?w cfg) = Inr (JList (map JDict ?tds))"
    using serving_discover [OF fs_server_fields(1,2,3), of "[fs_server]" ?tds] by simp
  have a: "\<forall>cfg\<in>set [fs_server]. dict_get cfg ''tools'' (JList []) = JList []"
    by (simp add: fs_server_def dict_get_def)
  have n: "\<exists>cfg\<in>set [fs_server]. \<exists>td\<in>set ?tds. whitelisted [] td \<and> map_of td ''name'' = None"
    by (simp add: whitelisted_def)
  have "snd (create_mcp_client_tools ?w) = Inl (KeyError ''name'')"
    by (rule create_nameless [where found = "\<lambda>_. ?tds" and allowed = "\<lambda>_. []", OF l d a n])
  then show ?thesis by simp
qed


subsection \<open>Tools without a name\<close>

lemma filter_implied: "\<forall>x\<in>set xs. P x \<longrightarrow> Q x \<Longrightarrow> filter P (filter Q xs) = filter P xs"
  by (induction xs) auto

lemma create_skips_nameless:
  assumes "snd (load_mcp_config w) = Inr (JList (map JDict cfgs))"
      and "\<forall>cfg\<in>set cfgs. snd (discover_mcp_tools w cfg) = Inr (JList (map JDict (found cfg)))"
      and "\<forall>cfg\<in>set cfgs. dict_get cfg ''tools'' (JList []) = JList (allowed cfg)"
      and "\<forall>cfg\<in>set cfgs. \<forall>td\<in>set (found cfg). map_of td ''name'' = None \<longrightarrow>
             allowed cfg \<noteq> [] \<and> JStr [] \<notin> set (allowed cfg)"
  shows "snd (create_mcp_client_tools w) =
           Inr (concat (map (\<lambda>cfg. map (wrapper cfg)
                  (filter (whitelisted (allowed cfg))
                     (filter (\<lambda>td. map_of td ''name'' \<noteq> None) (found cfg)))) cfgs))"
proof -
  have named: "\<forall>cfg\<in>set cfgs. \<forall>td\<in>set (found cfg). whitelisted (allowed cfg) td \<longrightarrow> map_of td ''name'' \<noteq> None"
  proof (intro ballI impI)
    fix cfg td
    assume c: "cfg \<in> set cfgs" and t: "td \<in> set (found cfg)" and wl: "whitelisted (allowed cfg) td"
    show "map_of td ''name'' \<noteq> None"
    proof
      assume n: "map_of td ''name'' = None"
      then have "allowed cfg \<noteq> [] \<and> JStr [] \<notin> set (allowed cfg)" using assms(4) c t by blast
      then have "\<not> whitelisted (allowed cfg) td" using whitelisted_nameless [OF n] by blast
      then show False using wl by simp
    qed
  qed
  have same: "map (\<lambda>cfg. map (wrapper cfg) (filter (whitelisted (allowed cfg))
                     (filter (\<lambda>td. map_of td ''name'' \<noteq> None) (found cfg)))) cfgs =
              map (\<lambda>cfg. map (wrapper cfg) (filter (whitelisted (allowed cfg)) (found cfg))) cfgs"
  proof (rule map_cong [OF refl])
    fix cfg
    assume c: "cfg \<in> set cfgs"
    have "\<forall>td\<in>set (found cfg). whitelisted (allowed cfg) td \<longrightarrow> map_of td ''name'' \<noteq> None"
      using named c by blast
    then have "filter (whitelisted (allowed cfg)) (filter (\<lambda>td. map_of td ''name'' \<noteq> None) (found cfg)) =
               filter (whitelisted (allowed cfg)) (found cfg)"
      by (rule filter_implied)
    then show "map (wrapper cfg) (filter (whitelisted (allowed cfg))
                     (filter (\<lambda>td. map_of td ''name'' \<noteq> None) (found cfg))) =
               map (wrapper cfg) (filter (whitelisted (allowed cfg)) (found cfg))"
      by simp
  qed
  show ?thesis
    unfolding same by (rule create_named [OF assms(1-3) named])
qed

lemma skip_nameless:
  assumes "map_of td ''name'' = None" and "ws \<noteq> []" and "JStr [] \<notin> set ws"
  shows "register_tool server_config (JList ws) (JDict td) tools =
           ([(DEBUG, ''Skipping tool  (not in whitelist)'')], Inr tools)"
proof -
  have "\<not> whitelisted ws td"
    using assms whitelisted_nameless [OF assms(1)] by blast
  then show ?thesis
    using assms(1) by (simp add: register_tool_skip dict_get_def py_format_def py_str_def)
qed

text \<open>
  C9 (amended). When the configuration is an array of server objects, every discovery
  returns an array of tool objects and every whitelist is an array or absent: if a
  discovered tool has no \<^verbatim>\<open>name\<close> key and its server's whitelist is empty,
  \<^verbatim>\<open>create_mcp_client_tools\<close> raises \<^verbatim>\<open>KeyError\<close>, which comes from \<^verbatim>\<open>MCPClientTool.__init__\<close>
  indexing the tool definition; the same happens when the whitelist holds the empty string,
  the name such a tool is given for the filter. When every whitelist of a server with such a
  tool is non-empty and does not hold the empty string, these tools are skipped, with one
  record at level DEBUG each and the list of tools unchanged, and the registry is the one of
  the tools that have a name. So the construction is not total.
\<close>

theorem create_mcp_client_tools_nameless_tool:
  assumes "snd (load_mcp_config w) = Inr (JList (map JDict cfgs))"
      and "\<forall>cfg\<in>set cfgs. snd (discover_mcp_tools w cfg) = Inr (JList (map JDict (found cfg)))"
      and "\<forall>cfg\<in>set cfgs. dict_get cfg ''tools'' (JList []) = JList (allowed cfg)"
  shows "((\<exists>cfg\<in>set cfgs. \<exists>td\<in>set (found cfg). map_of td ''name'' = None \<and> allowed cfg = []) \<longrightarrow>
            snd (create_mcp_client_tools w) = Inl (KeyError ''name''))
       \<and> ((\<exists>cfg\<in>set cfgs. \<exists>td\<in>set (found cfg). map_of td ''name'' = None \<and> JStr [] \<in> set (allowed cfg)) \<longrightarrow>
            snd (create_mcp_client_tools w) = Inl (KeyError ''name''))
       \<and> ((\<forall>cfg\<in>set cfgs. \<forall>td\<in>set (found cfg). map_of td ''name'' = None \<longrightarrow>
              allowed cfg \<noteq> [] \<and> JStr [] \<notin> set (allowed cfg)) \<longrightarrow>
            snd (create_mcp_client_tools w) =
              Inr (concat (map (\<lambda>cfg. map (wrapper cfg)
                     (filter (whitelisted (allowed cfg))
                        (filter (\<lambda>td. map_of td ''name'' \<noteq> None) (found cfg)))) cfgs)))
       \<and> (\<forall>server_config ws td tools. map_of td ''name'' = None \<and> ws \<noteq> [] \<and> JStr [] \<notin> set ws \<longrightarrow>
            register_tool server_config (JList ws) (JDict td) tools =
              ([(DEBUG, ''Skipping tool  (not in whitelist)'')], Inr tools))
       \<and> (\<forall>server_config sn td. map_of server_config ''name'' = Some sn \<and> map_of td ''name'' = None \<longrightarrow>
            MCPClientTool_init server_config td = Inl (KeyError ''name''))"
proof (intro conjI allI impI)
  assume "\<exists>cfg\<in>set cfgs. \<exists>td\<in>set (found cfg). map_of td ''name'' = None \<and> allowed cfg = []"
  then obtain cfg td where c: "cfg \<in> set cfgs" and t: "td \<in> set (found cfg)"
    and n: "map_of td ''name'' = None" and e: "allowed cfg = []"
    by blast
  have "whitelisted (allowed cfg) td" using e by (simp add: whitelisted_def)
  then have "\<exists>cfg\<in>set cfgs. \<exists>td\<in>set (found cfg). whitelisted (allowed cfg) td \<and> map_of td ''name'' = None"
    using c t n by blast
  then show "snd (create_mcp_client_tools w) = Inl (KeyError ''name'')"
    by (rule create_nameless [OF assms])
next
  assume "\<exists>cfg\<in>set cfgs. \<exists>td\<in>set (found cfg). map_of td ''name'' = None \<and> JStr [] \<in> set (allowed cfg)"
  then obtain cfg td where c: "cfg \<in> set cfgs" and t: "td \<in> set (found cfg)"
    and n: "map_of td ''name'' = None" and e: "JStr [] \<in> set (allowed cfg)"
    by blast
  have "whitelisted (allowed cfg) td" using e whitelisted_nameless [OF n] by blast
  then have "\<exists>cfg\<in>set cfgs. \<exists>td\<in>set (found cfg). whitelisted (allowed cfg) td \<and> map_of td ''name'' = None"
    using c t n by blast
  then show "snd (create_mcp_client_tools w) = Inl (KeyError ''name'')"
    by (rule create_nameless [OF assms])
next
  assume "\<forall>cfg\<in>set cfgs. \<forall>td\<in>set (found cfg). map_of td ''name'' = None \<longrightarrow>
              allowed cfg \<noteq> [] \<and> JStr [] \<notin> set (allowed cfg)"
  then show "snd (create_mcp_client_tools w) =
              Inr (concat (map (\<lambda>cfg. map (wrapper cfg)
                     (filter (whitelisted (allowed cfg))
                        (filter (\<lambda>td. map_of td ''name'' \<noteq> None) (found cfg)))) cfgs))"
    by (rule create_skips_nameless [OF assms])
next
  fix server_config :: pydict and ws :: "json list" and td :: pydict and tools :: "mcp_client_tool list"
  assume "map_of td ''name'' = None \<and> ws \<noteq> [] \<and> JStr [] \<notin> set ws"
  then show "register_tool server_config (JList ws) (JDict td) tools =
              ([(DEBUG, ''Skipping tool  (not in whitelist)'')], Inr tools)"
    using skip_nameless by blast
next
  fix server_config :: pydict and sn :: json and td :: pydict
  assume "map_of server_config ''name'' = Some sn \<and> map_of td ''name'' = None"
  then show "MCPClientTool_init server_config td = Inl (KeyError ''name'')"
    using init_nameless by blast
qed

theorem create_mcp_client_tools_nameless_tool_witness:
  "snd (create_mcp_client_tools (serving [fs_server] [JDict [(''inputSchema'', JDict [])]])) =
     Inl (KeyError ''name'')
   \<and> snd (create_mcp_client_tools
            (serving [fs_read_only] [JDict [(''inputSchema'', JDict [])], JDict [(''name'', JStr ''read'')]])) =
     Inr [wrapper fs_read_only [(''name'', JStr ''read'')]]
   \<and> register_tool fs_read_only (JList [JStr ''read'']) (JDict [(''inputSchema'', JDict [])]) [] =
     ([(DEBUG, ''Skipping tool  (not in whitelist)'')], Inr [])"
proof -
  let ?t1 = "[[(''inputSchema'', JDict [])]]"
  let ?t2 = "[[(''inputSchema'', JDict [])], [(''name'', JStr ''read'')]]"
  let ?a = "serving [fs_server] (map JDict ?t1)"
  let ?b = "serving [fs_read_only] (map JDict ?t2)"
  have la: "snd (load_mcp_config ?a) = Inr (JList (map JDict [fs_server]))"
    by (rule serving_load)
  have lb: "snd (load_mcp_config ?b) = Inr (JList (map JDict [fs_read_only]))"
    by (rule serving_load)
  have da: "\<forall>cfg\<in>set [fs_server]. snd (discover_mcp_tools ?a cfg) = Inr (JList (map JDict ?t1))"
    using serving_discover [OF fs_server_fields(1,2,3), of "[fs_server]" ?t1] by simp
  have db: "\<forall>cfg\<in>set [fs_read_only]. snd (discover_mcp_tools ?b cfg) = Inr (JList (map JDict ?t2))"
    using serving_discover [OF fs_server_fields(4,5,6), of "[fs_read_only]" ?t2] by simp
  have wa: "\<forall>cfg\<in>set [fs_server]. dict_get cfg ''tools'' (JList []) = JList []"
    by (simp add: fs_server_def dict_get_def)
  have wb: "\<forall>cfg\<in>set [fs_read_only]. dict_get cfg ''tools'' (JList []) = JList [JStr ''read'']"
    by (simp add: fs_read_only_def fs_server_def dict_get_def)
  note A = create_mcp_client_tools_nameless_tool
             [where w = ?a and cfgs = "[fs_server]" and found = "\<lambda>_. ?t1" and allowed = "\<lambda>_. []",
              OF la da wa]
  note B = create_mcp_client_tools_nameless_tool
             [where w = ?b and cfgs = "[fs_read_only]" and found = "\<lambda>_. ?t2" and allowed = "\<lambda>_. [JStr ''read'']",
              OF lb db wb]
  have 1: "snd (create_mcp_client_tools ?a) = Inl (KeyError ''name'')"
    using A by simp
  have 2: "snd (create_mcp_client_tools ?b) = Inr [wrapper fs_read_only [(''name'', JStr ''read'')]]"
    using B by (simp add: whitelisted_def dict_get_def)
  have 3: "register_tool fs_read_only (JList [JStr ''read'']) (JDict [(''inputSchema'', JDict [])]) [] =
     ([(DEBUG, ''Skipping tool  (not in whitelist)'')], Inr [])"
    using B by simp
  show ?thesis using 1 2 3 by simp
qed

text \<open>
  C9 as stated fails for a non-empty whitelist that holds the empty string: the tool without
  a name is given the name \<^verbatim>\<open>""\<close> for the filter, passes it, and \<^verbatim>\<open>MCPClientTool.__init__\<close>
  raises \<^verbatim>\<open>KeyError\<close>; the tool is not skipped.
\<close>

theorem create_mcp_client_tools_empty_name_counterexample:
  "snd (create_mcp_client_tools
          (serving [fs_server @ [(''tools'', JList [JStr ''''])]] [JDict [(''inputSchema'', JDict [])]])) =
     Inl (KeyError ''name'')"
proof -
  let ?cfg = "fs_server @ [(''tools'', JList [JStr ''''])]"
  let ?tds = "[[(''inputSchema'', JDict [])]]"
  let ?w = "serving [?cfg] (map JDict ?tds)"
  have f: "map_of ?cfg ''url'' = Some (JStr ''http://localhost:8080/mcp'')"
    "map_of ?cfg ''name'' = Some (JStr ''fs'')" "map_of ?cfg ''headers'' = None"
    by (simp_all add: fs_server_def)
  have l: "snd (load_mcp_config ?w) = Inr (JList (map JDict [?cfg]))"
    by (rule serving_load)
  have d: "\<forall>cfg\<in>set [?cfg]. snd (discover_mcp_tools ?w cfg) = Inr (JList (map JDict ?tds))"
    using serving_discover [OF f, of "[?cfg]" ?tds] by simp
  have a: "\<forall>cfg\<in>set [?cfg]. dict_get cfg ''tools'' (JList []) = JList [JStr '''']"
    by (simp add: fs_server_def dict_get_def)
  have n: "\<exists>cfg\<in>set [?cfg]. \<exists>td\<in>set ?tds. whitelisted [JStr ''''] td \<and> map_of td ''name'' = None"
    by (simp add: whitelisted_def dict_get_def)
  have "snd (create_mcp_client_tools ?w) = Inl (KeyError ''name'')"
    by (rule create_nameless [where found = "\<lambda>_. ?tds" and allowed = "\<lambda>_. [JStr '''']", OF l d a n])
  then show ?thesis by simp
qed


section \<open>The asynchronous entry point\<close>

text \<open>
  C8. For every message list, \<^verbatim>\<open>MCPClientTool.async_run\<close> gives exactly what
  \<^verbatim>\<open>MCPClientTool.run\<close> gives on that list: the same log records and the same response or
  exception. It does the same synchronous work.
\<close>

theorem async_run_same_as_run: "async_run w self messages = run w self messages"
  by (simp add: async_run_def)

end
